theory Spec2Isabelle
  imports Complex_Main
begin

section \<open>Shared vocabulary\<close>

text \<open>
  The three React components (\<^verbatim>\<open>SearchInput\<close>, \<^verbatim>\<open>TrafficMap\<close>, \<^verbatim>\<open>OptimizationPanel\<close>)
  are embedded as explicit state records; every \<^verbatim>\<open>setX\<close> call of the source is a record
  update, and everything a handler does to the outside world (a \<^verbatim>\<open>fetch\<close>, a \<^verbatim>\<open>toast\<close>,
  a call of a callback prop, drawing on the map) is appended, in program order, to a
  trace of events.

  A JavaScript string is modelled as a \<^typ>\<open>string\<close> whose characters stand for the
  code units of the source string, so that \<^term>\<open>length\<close> is \<^verbatim>\<open>.length\<close>.  A coordinate
  \<^verbatim>\<open>[number, number]\<close> is a pair of reals; the numbers are only passed through.
\<close>

type_synonym coord = "real \<times> real"

datatype traffic_level = Free | Light | Moderate | Heavy

text \<open>The notifications of the source, one constructor for each \<^verbatim>\<open>toast({...})\<close> call.\<close>

datatype toast =
    LocationAccessDenied     \<comment> \<open>"Location Access Denied"\<close>
  | DestinationNotFound      \<comment> \<open>"Destination Not Found"\<close>
  | TrafficDetected          \<comment> \<open>"Traffic Detected!": alternative route available\<close>
  | RouteError               \<comment> \<open>"Route Error": unable to get route\<close>
  | LocationNotFound         \<comment> \<open>"Location not found"\<close>
  | ErrorAddingWaypoint      \<comment> \<open>"Error adding waypoint"\<close>
  | NeedMoreWaypoints        \<comment> \<open>"Need more waypoints": add at least 2 destinations\<close>
  | RouteOptimized real      \<comment> \<open>"Route Optimized!", formatted from the trip's duration\<close>
  | OptimizationFailed       \<comment> \<open>"Optimization failed"\<close>

text \<open>
  The requests sent to the mapping service.  The autocomplete lookup and the geocode call
  use the same geocoding endpoint; they differ in the \<^verbatim>\<open>limit\<close> parameter (carried here)
  and in the \<^verbatim>\<open>types\<close> filter, which only the autocomplete lookup sends.
\<close>

datatype request =
    Autocomplete string nat       \<comment> \<open>search text, \<^verbatim>\<open>limit\<close>\<close>
  | Geocode string nat            \<comment> \<open>search text, \<^verbatim>\<open>limit\<close>\<close>
  | Directions coord coord        \<comment> \<open>origin, destination\<close>
  | OptimizedTrips "coord list"   \<comment> \<open>origin followed by the waypoints\<close>

record RouteData =
  geometry :: "coord list option"
  duration :: real
  distance :: real
  congestion :: "string list"
  hasTraffic :: bool
  trafficLevel :: traffic_level

datatype event =
    Fetch request
  | Notify toast
  | Render "RouteData list"                 \<comment> \<open>\<^verbatim>\<open>displayRoutes\<close> drew these routes\<close>
  | RenderOptimized "coord list"            \<comment> \<open>\<^verbatim>\<open>handleOptimizedRoute\<close> drew this path\<close>
  | Deliver string "coord option"           \<comment> \<open>\<^verbatim>\<open>onDestinationSelect(destination, coordinates?)\<close>\<close>
  | EmitOptimized "coord list" "string list" \<comment> \<open>\<^verbatim>\<open>onOptimizedRoute(coordinates, waypoints)\<close>\<close>
  | ConsoleError

datatype completion = Returned | Thrown

section \<open>TrafficMap: the route fetcher and classifier\<close>

subsection \<open>Responses of the mapping service\<close>

text \<open>
  A response is \<^term>\<open>None\<close> when \<^verbatim>\<open>fetch\<close> or \<^verbatim>\<open>response.json()\<close> rejects (network or parse
  failure).  Of the parsed JSON, the fields the source guards, or reads in a way that can
  throw, are optional: \<^verbatim>\<open>features\<close>, \<^verbatim>\<open>routes\<close>, \<^verbatim>\<open>legs\<close>, \<^verbatim>\<open>annotation\<close>,
  \<^verbatim>\<open>congestion\<close>, and the \<^verbatim>\<open>geometry\<close> of a route, which is \<^term>\<open>None\<close> when the route has
  no \<^verbatim>\<open>geometry\<close> or the geometry has no \<^verbatim>\<open>coordinates\<close> array, and else the list of its
  coordinates.  The others are taken as the service documents them.
\<close>

datatype annotation = Annotation (ann_congestion: "string list option")

datatype leg = Leg (leg_annotation: "annotation option")

record raw_route =
  route_geometry :: "coord list option"
  route_duration :: real
  route_distance :: real
  legs :: "leg list option"

record Suggestion =
  sid :: string
  place_name :: string
  center :: coord
  place_type :: "string list"

record geocode_data =
  features :: "Suggestion list option"

record directions_data =
  routes_field :: "raw_route list option"

record services =
  geocode_api :: "string \<Rightarrow> nat \<Rightarrow> geocode_data option"
  directions_api :: "coord \<Rightarrow> coord \<Rightarrow> directions_data option"
  map_present :: bool      \<comment> \<open>\<^verbatim>\<open>map.current\<close> is not null\<close>
  render_throws :: bool    \<comment> \<open>the map library throws for a reason of its own\<close>

subsection \<open>Classification of one route\<close>

text \<open>\<^verbatim>\<open>route.legs[0]?.annotation?.congestion || []\<close>, given that \<^verbatim>\<open>route.legs\<close> is there.\<close>

definition congestionLevels :: "leg list \<Rightarrow> string list" where
  "congestionLevels ls =
     (case ls of
        [] \<Rightarrow> []
      | l # _ \<Rightarrow>
          (case leg_annotation l of
             None \<Rightarrow> []
           | Some a \<Rightarrow> (case ann_congestion a of None \<Rightarrow> [] | Some c \<Rightarrow> c)))"

text \<open>\<^verbatim>\<open>congestionLevels.some(level => ['moderate', 'heavy', 'severe'].includes(level))\<close>\<close>

definition hasTraffic_of :: "string list \<Rightarrow> bool" where
  "hasTraffic_of cl = list_ex (\<lambda>level. level \<in> set [''moderate'', ''heavy'', ''severe'']) cl"

text \<open>The \<^verbatim>\<open>if / else if / else if\<close> chain that determines the overall traffic level.\<close>

definition trafficLevel_of :: "string list \<Rightarrow> traffic_level" where
  "trafficLevel_of cl =
     (if ''severe'' \<in> set cl then Heavy
      else if ''heavy'' \<in> set cl then Moderate
      else if ''moderate'' \<in> set cl then Light
      else Free)"

text \<open>
  The body of the \<^verbatim>\<open>routeData.routes.map\<close> callback.  Reading \<^verbatim>\<open>route.legs[0]\<close> throws a
  TypeError when \<^verbatim>\<open>legs\<close> is missing.
\<close>

definition processRoute :: "raw_route \<Rightarrow> RouteData option" where
  "processRoute route =
     (case legs route of
        None \<Rightarrow> None
      | Some ls \<Rightarrow>
          (let cl = congestionLevels ls in
           Some \<lparr> geometry = route_geometry route,
                  duration = route_duration route,
                  distance = route_distance route,
                  congestion = cl,
                  hasTraffic = hasTraffic_of cl,
                  trafficLevel = trafficLevel_of cl \<rparr>))"

text \<open>\<^verbatim>\<open>routes.map(...)\<close>: the first callback that throws aborts the whole map.\<close>

fun processRoutes :: "raw_route list \<Rightarrow> RouteData list option" where
  "processRoutes [] = Some []"
| "processRoutes (r # rs) =
     (case processRoute r of
        None \<Rightarrow> None
      | Some p \<Rightarrow> (case processRoutes rs of None \<Rightarrow> None | Some ps \<Rightarrow> Some (p # ps)))"

subsection \<open>Component state and handlers\<close>

record traffic_map =
  userLocation :: "coord option"
  routes :: "RouteData list"
  selectedRouteIndex :: nat
  destination :: string
  isLoading :: bool
  showOptimization :: bool

text \<open>The values given to \<^verbatim>\<open>useState\<close>.\<close>

definition initial_traffic_map :: traffic_map where
  "initial_traffic_map =
     \<lparr> userLocation = None, routes = [], selectedRouteIndex = 0, destination = [],
       isLoading = False, showOptimization = False \<rparr>"

text \<open>
  \<^verbatim>\<open>displayRoutes\<close> returns at once without a map.  Otherwise, for a non-empty list, it
  reads \<^verbatim>\<open>routeData[0].geometry.coordinates\<close> and places the destination marker at the
  last coordinate: the read throws a TypeError when the geometry or its coordinates are
  missing, and \<^verbatim>\<open>setLngLat(undefined)\<close> throws when the coordinates are empty.  The other
  statements only call into the map library, which is outside the repository and may
  throw for a reason of its own (\<^term>\<open>render_throws\<close>); when nothing throws the routes are
  drawn (one \<^term>\<open>Render\<close> event).  It sets no component state.
\<close>

definition displayRoutes :: "services \<Rightarrow> RouteData list \<Rightarrow> completion \<times> event list" where
  "displayRoutes sv routeData =
     (if \<not> map_present sv then (Returned, [])
      else
        (case routeData of
           [] \<Rightarrow> (if render_throws sv then (Thrown, []) else (Returned, [Render routeData]))
         | r0 # _ \<Rightarrow>
             (case geometry r0 of
                None \<Rightarrow> (Thrown, [])
              | Some [] \<Rightarrow> (Thrown, [])
              | Some (lastCoord # _) \<Rightarrow>
                  (if render_throws sv then (Thrown, [])
                   else (Returned, [Render routeData])))))"

text \<open>
  The check for traffic after the routes are drawn: \<^verbatim>\<open>processedRoutes[0].hasTraffic &&
  processedRoutes.length > 1\<close>, then \<^verbatim>\<open>find(route => !route.hasTraffic ||
  route.trafficLevel === 'free')\<close>.  The source evaluates it under
  \<^verbatim>\<open>routeData.routes.length > 0\<close> only, so the first equation is never reached from
  \<^verbatim>\<open>getRoutes\<close>.
\<close>

fun suggestAlternative :: "RouteData list \<Rightarrow> bool" where
  "suggestAlternative [] = False"
| "suggestAlternative (r0 # rest) =
     (hasTraffic r0 \<and> length (r0 # rest) > 1 \<and>
      find (\<lambda>route. \<not> hasTraffic route \<or> trafficLevel route = Free) (r0 # rest) \<noteq> None)"

text \<open>
  The part of the \<^verbatim>\<open>try\<close> block of \<^verbatim>\<open>getRoutes\<close> from the directions request on.  The
  result says whether the block completed or threw, and gives the state and the events up
  to that point.
\<close>

definition getRoutes_directions ::
    "services \<Rightarrow> coord \<Rightarrow> coord \<Rightarrow> traffic_map \<Rightarrow> completion \<times> traffic_map \<times> event list" where
  "getRoutes_directions sv origin destCoords s =
     (let call = [Fetch (Directions origin destCoords)] in
      case directions_api sv origin destCoords of
        None \<Rightarrow> (Thrown, s, call)
      | Some routeData \<Rightarrow>
          (case routes_field routeData of
             None \<Rightarrow> (Returned, s, call)
           | Some [] \<Rightarrow> (Returned, s, call)
           | Some (r # rs) \<Rightarrow>
               (case processRoutes (r # rs) of
                  None \<Rightarrow> (Thrown, s, call)
                | Some processedRoutes \<Rightarrow>
                    (let s1 = s\<lparr>routes := processedRoutes\<rparr> in
                     case displayRoutes sv processedRoutes of
                       (Thrown, drawn) \<Rightarrow> (Thrown, s1, call @ drawn)
                     | (Returned, drawn) \<Rightarrow>
                         (Returned, s1,
                          call @ drawn @
                          (if suggestAlternative processedRoutes
                           then [Notify TrafficDetected] else []))))))"

text \<open>
  The whole \<^verbatim>\<open>try\<close> block: the geocode call when no coordinates were passed
  (\<^verbatim>\<open>limit=1\<close>), with its "destination not found" early return, then the rest.  Reading
  \<^verbatim>\<open>geocodeData.features.length\<close> throws a TypeError when \<^verbatim>\<open>features\<close> is missing.
\<close>

definition getRoutes_try ::
    "services \<Rightarrow> coord \<Rightarrow> string \<Rightarrow> coord option \<Rightarrow> traffic_map
      \<Rightarrow> completion \<times> traffic_map \<times> event list" where
  "getRoutes_try sv origin dest coordinates s =
     (case coordinates of
        Some destCoords \<Rightarrow> getRoutes_directions sv origin destCoords s
      | None \<Rightarrow>
          (let call = [Fetch (Geocode dest 1)] in
           case geocode_api sv dest 1 of
             None \<Rightarrow> (Thrown, s, call)
           | Some geocodeData \<Rightarrow>
               (case features geocodeData of
                  None \<Rightarrow> (Thrown, s, call)
                | Some [] \<Rightarrow>
                    (Returned, s\<lparr>isLoading := False\<rparr>, call @ [Notify DestinationNotFound])
                | Some (f # _) \<Rightarrow>
                    (case getRoutes_directions sv origin (center f) s of
                       (c, s1, evs) \<Rightarrow> (c, s1, call @ evs)))))"

text \<open>
  \<^verbatim>\<open>getRoutes(destination, coordinates?)\<close>: the guard, the two state updates before the
  \<^verbatim>\<open>try\<close>, the \<^verbatim>\<open>catch\<close> with its notification and the \<^verbatim>\<open>finally\<close>.
\<close>

definition getRoutes ::
    "services \<Rightarrow> string \<Rightarrow> coord option \<Rightarrow> traffic_map \<Rightarrow> traffic_map \<times> event list" where
  "getRoutes sv dest coordinates s =
     (case userLocation s of
        None \<Rightarrow> (s, [])
      | Some origin \<Rightarrow>
          if dest = [] then (s, [])
          else
            (case getRoutes_try sv origin dest coordinates
                    (s\<lparr>isLoading := True, destination := dest\<rparr>) of
               (Thrown, s1, evs) \<Rightarrow> (s1\<lparr>isLoading := False\<rparr>, evs @ [Notify RouteError])
             | (Returned, s1, evs) \<Rightarrow> (s1\<lparr>isLoading := False\<rparr>, evs)))"

text \<open>
  \<^verbatim>\<open>selectRoute(index)\<close>, called from the button of the route at \<^verbatim>\<open>index\<close>.  The
  redraw is not inside a \<^verbatim>\<open>try\<close>.
\<close>

definition selectRoute ::
    "services \<Rightarrow> nat \<Rightarrow> traffic_map \<Rightarrow> completion \<times> traffic_map \<times> event list" where
  "selectRoute sv index s =
     (let s1 = s\<lparr>selectedRouteIndex := index\<rparr> in
      if length (routes s) > 0
      then (case displayRoutes sv (routes s) of (c, drawn) \<Rightarrow> (c, s1, drawn))
      else (Returned, s1, []))"

text \<open>\<^verbatim>\<open>handleOptimizedRoute\<close>: draws the optimized path, then clears the route list.\<close>

definition handleOptimizedRoute ::
    "services \<Rightarrow> coord list \<Rightarrow> string list \<Rightarrow> traffic_map
      \<Rightarrow> completion \<times> traffic_map \<times> event list" where
  "handleOptimizedRoute sv coordinates waypoints s =
     (if \<not> map_present sv then (Returned, s, [])
      else if render_throws sv then (Thrown, s, [])
      else (Returned, s\<lparr>routes := [], showOptimization := False\<rparr>,
            [RenderOptimized coordinates]))"

section \<open>SearchInput: the destination resolver\<close>

record search_input =
  query :: string
  suggestions :: "Suggestion list"
  showSuggestions :: bool
  selectedIndex :: int

definition initial_search_input :: search_input where
  "initial_search_input =
     \<lparr> query = [], suggestions = [], showSuggestions = False, selectedIndex = - 1 \<rparr>"

text \<open>
  The props the logic reads, and the answer of the geocoding endpoint to the autocomplete
  request for a text and a \<^verbatim>\<open>limit\<close>.
\<close>

record search_props =
  mapboxToken :: string
  autocomplete_api :: "string \<Rightarrow> nat \<Rightarrow> geocode_data option"

text \<open>
  \<^verbatim>\<open>String.prototype.trim\<close>, for the white space and line terminator code units below
  256: tab, line feed, vertical tab, form feed, carriage return, space, no-break space.
\<close>

definition js_whitespace :: "char \<Rightarrow> bool" where
  "js_whitespace c = (of_char c \<in> set [9, 10, 11, 12, 13, 32, 160 :: nat])"

definition trim :: "string \<Rightarrow> string" where
  "trim str = rev (dropWhile js_whitespace (rev (dropWhile js_whitespace str)))"

datatype key = ArrowDown | ArrowUp | Enter | Escape | OtherKey

definition selectSuggestion :: "Suggestion \<Rightarrow> search_input \<Rightarrow> search_input \<times> event list" where
  "selectSuggestion suggestion s =
     (s\<lparr>query := place_name suggestion, showSuggestions := False, suggestions := [],
        selectedIndex := - 1\<rparr>,
      [Deliver (place_name suggestion) (Some (center suggestion))])"

definition handleSearch :: "search_input \<Rightarrow> search_input \<times> event list" where
  "handleSearch s =
     (if trim (query s) \<noteq> []
      then (s\<lparr>showSuggestions := False\<rparr>, [Deliver (trim (query s)) None])
      else (s, []))"

text \<open>
  \<^verbatim>\<open>handleKeyDown\<close>.  \<^verbatim>\<open>suggestions[selectedIndex]\<close> is \<^verbatim>\<open>undefined\<close> beyond the end of the
  list, and \<^verbatim>\<open>selectSuggestion\<close> then throws on its first line, before any update.
\<close>

definition handleKeyDown :: "key \<Rightarrow> search_input \<Rightarrow> completion \<times> search_input \<times> event list" where
  "handleKeyDown k s =
     (if \<not> showSuggestions s \<or> length (suggestions s) = 0
      then (if k = Enter then (case handleSearch s of (s1, evs) \<Rightarrow> (Returned, s1, evs))
            else (Returned, s, []))
      else
        (case k of
           ArrowDown \<Rightarrow>
             (Returned,
              s\<lparr>selectedIndex :=
                  (if selectedIndex s < int (length (suggestions s)) - 1
                   then selectedIndex s + 1 else selectedIndex s)\<rparr>, [])
         | ArrowUp \<Rightarrow>
             (Returned,
              s\<lparr>selectedIndex := (if selectedIndex s > 0 then selectedIndex s - 1 else - 1)\<rparr>,
              [])
         | Enter \<Rightarrow>
             (if selectedIndex s \<ge> 0
              then (if nat (selectedIndex s) < length (suggestions s)
                    then (case selectSuggestion (suggestions s ! nat (selectedIndex s)) s of
                            (s1, evs) \<Rightarrow> (Returned, s1, evs))
                    else (Thrown, s, []))
              else (case handleSearch s of (s1, evs) \<Rightarrow> (Returned, s1, evs)))
         | Escape \<Rightarrow> (Returned, s\<lparr>showSuggestions := False, selectedIndex := - 1\<rparr>, [])
         | OtherKey \<Rightarrow> (Returned, s, [])))"

text \<open>
  The pointer handlers of the rendered list and of the input.  A click comes from the
  button rendered for the suggestion at \<open>index\<close>, so the index is within the list.
\<close>

definition handleClick :: "nat \<Rightarrow> search_input \<Rightarrow> search_input \<times> event list" where
  "handleClick index s =
     (if index < length (suggestions s) then selectSuggestion (suggestions s ! index) s
      else (s, []))"

definition handleMouseEnter :: "nat \<Rightarrow> search_input \<Rightarrow> search_input" where
  "handleMouseEnter index s = s\<lparr>selectedIndex := int index\<rparr>"

definition handleFocus :: "search_input \<Rightarrow> search_input" where
  "handleFocus s = (if length (suggestions s) > 0 then s\<lparr>showSuggestions := True\<rparr> else s)"

definition handleClickOutside :: "search_input \<Rightarrow> search_input" where
  "handleClickOutside s = s\<lparr>showSuggestions := False\<rparr>"

definition handleInputChange :: "string \<Rightarrow> search_input \<Rightarrow> search_input" where
  "handleInputChange v s = s\<lparr>query := v\<rparr>"

text \<open>
  \<^verbatim>\<open>searchSuggestions(searchQuery)\<close>.  The request asks for \<^verbatim>\<open>limit=5\<close>; the state is the
  one at the time the response arrives.  A rejected \<^verbatim>\<open>fetch\<close> or \<^verbatim>\<open>json()\<close> is logged.
\<close>

definition searchSuggestions ::
    "search_props \<Rightarrow> string \<Rightarrow> search_input \<Rightarrow> search_input \<times> event list" where
  "searchSuggestions pr searchQuery s =
     (if mapboxToken pr = [] \<or> trim searchQuery = [] then (s, [])
      else
        (case autocomplete_api pr searchQuery 5 of
           None \<Rightarrow> (s, [Fetch (Autocomplete searchQuery 5), ConsoleError])
         | Some data \<Rightarrow>
             (case features data of
                None \<Rightarrow> (s, [Fetch (Autocomplete searchQuery 5)])
              | Some fs \<Rightarrow>
                  (s\<lparr>suggestions := fs, showSuggestions := True, selectedIndex := - 1\<rparr>,
                   [Fetch (Autocomplete searchQuery 5)]))))"

text \<open>
  The callback that the debounce effect hands to \<^verbatim>\<open>setTimeout(..., 300)\<close>; \<open>q\<close> is the
  query of the render that set the timer.  When the browser runs it is outside the model.
\<close>

definition debounced_search ::
    "search_props \<Rightarrow> string \<Rightarrow> search_input \<Rightarrow> search_input \<times> event list" where
  "debounced_search pr q s =
     (if length q > 2 then searchSuggestions pr q s
      else (s\<lparr>suggestions := [], showSuggestions := False\<rparr>, []))"

section \<open>OptimizationPanel: the multi-stop optimizer\<close>

record Waypoint =
  wid :: string
  name :: string
  coordinates :: coord

record trip_waypoint =
  waypoint_index :: nat

text \<open>
  Reading \<^verbatim>\<open>optimizedTrip.geometry.coordinates\<close> or calling \<^verbatim>\<open>optimizedTrip.waypoints.map\<close>
  throws when the field is missing.
\<close>

record trip =
  trip_geometry :: "coord list option"
  trip_waypoints :: "trip_waypoint list option"
  trip_duration :: real

record optimization_data =
  trips :: "trip list option"

record optimization_panel =
  waypoints :: "Waypoint list"
  isOptimizing :: bool
  newWaypoint :: string

definition initial_optimization_panel :: optimization_panel where
  "initial_optimization_panel = \<lparr> waypoints = [], isOptimizing = False, newWaypoint = [] \<rparr>"

record panel_props =
  panel_token :: string
  panel_userLocation :: "coord option"
  waypoint_geocode_api :: "string \<Rightarrow> nat \<Rightarrow> geocode_data option"
  optimization_api :: "coord list \<Rightarrow> optimization_data option"
  onOptimizedRoute_throws :: bool   \<comment> \<open>the callback prop throws\<close>
  now :: string                     \<comment> \<open>\<^verbatim>\<open>Date.now().toString()\<close>\<close>

text \<open>\<^verbatim>\<open>addWaypoint(placeName)\<close>: one geocode call with \<^verbatim>\<open>limit=1\<close>.\<close>

definition addWaypoint ::
    "panel_props \<Rightarrow> string \<Rightarrow> optimization_panel \<Rightarrow> optimization_panel \<times> event list" where
  "addWaypoint pr placeName s =
     (if trim placeName = [] \<or> panel_token pr = [] then (s, [])
      else
        (case waypoint_geocode_api pr placeName 1 of
           None \<Rightarrow> (s, [Fetch (Geocode placeName 1), Notify ErrorAddingWaypoint])
         | Some data \<Rightarrow>
             (case features data of
                Some (feature # _) \<Rightarrow>
                  (s\<lparr>waypoints :=
                       waypoints s @
                       [\<lparr> wid = now pr, name = place_name feature,
                          coordinates = center feature \<rparr>],
                     newWaypoint := []\<rparr>,
                   [Fetch (Geocode placeName 1)])
              | _ \<Rightarrow> (s, [Fetch (Geocode placeName 1), Notify LocationNotFound]))))"

definition removeWaypoint :: "string \<Rightarrow> optimization_panel \<Rightarrow> optimization_panel" where
  "removeWaypoint i s = s\<lparr>waypoints := filter (\<lambda>wp. wid wp \<noteq> i) (waypoints s)\<rparr>"

definition clearWaypoints :: "optimization_panel \<Rightarrow> optimization_panel" where
  "clearWaypoints s = s\<lparr>waypoints := []\<rparr>"

text \<open>The decimal digits of an index, for the label \<^verbatim>\<open>`Stop ${index}`\<close>.\<close>

function decimal :: "nat \<Rightarrow> string" where
  "decimal n =
     (if n < 10 then [char_of (48 + n)]
      else decimal (n div 10) @ [char_of (48 + n mod 10)])"
  by pat_completeness auto
termination
  by (relation "measure id") auto

text \<open>
  The callback of \<^verbatim>\<open>waypointOrder.map\<close>: \<^verbatim>\<open>waypoints[wp.waypoint_index - 1]?.name ||
  `Stop ${index}`\<close> for every position but the first.
\<close>

definition waypointName :: "Waypoint list \<Rightarrow> trip_waypoint \<Rightarrow> nat \<Rightarrow> string" where
  "waypointName wps wp index =
     (if index = 0 then ''Your Location''
      else if waypoint_index wp \<ge> 1 \<and> waypoint_index wp - 1 < length wps
              \<and> name (wps ! (waypoint_index wp - 1)) \<noteq> []
      then name (wps ! (waypoint_index wp - 1))
      else ''Stop '' @ decimal index)"

definition optimizedWaypoints :: "Waypoint list \<Rightarrow> trip_waypoint list \<Rightarrow> string list" where
  "optimizedWaypoints wps waypointOrder =
     map (\<lambda>(wp, index). waypointName wps wp index)
       (zip waypointOrder [0 ..< length waypointOrder])"

text \<open>The \<^verbatim>\<open>try\<close> block of \<^verbatim>\<open>optimizeRoute\<close>, after the request was built.\<close>

definition optimizeRoute_try ::
    "panel_props \<Rightarrow> Waypoint list \<Rightarrow> coord list \<Rightarrow> completion \<times> event list" where
  "optimizeRoute_try pr wps allCoordinates =
     (let call = [Fetch (OptimizedTrips allCoordinates)] in
      case optimization_api pr allCoordinates of
        None \<Rightarrow> (Thrown, call)
      | Some data \<Rightarrow>
          (case trips data of
             Some (optimizedTrip # _) \<Rightarrow>
               (case trip_geometry optimizedTrip of
                  None \<Rightarrow> (Thrown, call)
                | Some optimizedCoordinates \<Rightarrow>
                    (case trip_waypoints optimizedTrip of
                       None \<Rightarrow> (Thrown, call)
                     | Some waypointOrder \<Rightarrow>
                         (if onOptimizedRoute_throws pr then (Thrown, call)
                          else
                            (Returned,
                             call @
                             [EmitOptimized optimizedCoordinates
                                (optimizedWaypoints wps waypointOrder),
                              Notify (RouteOptimized (trip_duration optimizedTrip))]))))
           | _ \<Rightarrow> (Returned, call)))"

text \<open>\<^verbatim>\<open>optimizeRoute()\<close>: the validation guard, the busy flag, \<^verbatim>\<open>catch\<close> and \<^verbatim>\<open>finally\<close>.\<close>

definition optimizeRoute ::
    "panel_props \<Rightarrow> optimization_panel \<Rightarrow> optimization_panel \<times> event list" where
  "optimizeRoute pr s =
     (case panel_userLocation pr of
        None \<Rightarrow> (s, [Notify NeedMoreWaypoints])
      | Some origin \<Rightarrow>
          if length (waypoints s) < 2 then (s, [Notify NeedMoreWaypoints])
          else
            (case optimizeRoute_try pr (waypoints s) (origin # map coordinates (waypoints s)) of
               (Thrown, evs) \<Rightarrow> (s\<lparr>isOptimizing := False\<rparr>, evs @ [Notify OptimizationFailed])
             | (Returned, evs) \<Rightarrow> (s\<lparr>isOptimizing := False\<rparr>, evs)))"

section \<open>Traces\<close>

text \<open>Reading a trace.\<close>

fun requests_of :: "event list \<Rightarrow> request list" where
  "requests_of [] = []"
| "requests_of (Fetch r # evs) = r # requests_of evs"
| "requests_of (_ # evs) = requests_of evs"

fun notifications_of :: "event list \<Rightarrow> toast list" where
  "notifications_of [] = []"
| "notifications_of (Notify t # evs) = t # notifications_of evs"
| "notifications_of (_ # evs) = notifications_of evs"

fun is_geocode :: "request \<Rightarrow> bool" where
  "is_geocode (Geocode _ _) = True"
| "is_geocode _ = False"

section \<open>Example inputs\<close>

text \<open>Concrete service answers and states, used to evaluate the handlers.\<close>

definition no_geocode :: "string \<Rightarrow> nat \<Rightarrow> geocode_data option" where
  "no_geocode q n = None"

definition geocode_const :: "Suggestion list \<Rightarrow> string \<Rightarrow> nat \<Rightarrow> geocode_data option" where
  "geocode_const fs q n = Some \<lparr> features = Some fs \<rparr>"

definition no_directions :: "coord \<Rightarrow> coord \<Rightarrow> directions_data option" where
  "no_directions a b = None"

definition directions_const :: "raw_route list \<Rightarrow> coord \<Rightarrow> coord \<Rightarrow> directions_data option" where
  "directions_const rs a b = Some \<lparr> routes_field = Some rs \<rparr>"

definition route_with :: "string list \<Rightarrow> raw_route" where
  "route_with tags =
     \<lparr> route_geometry = Some [(0, 0), (1, 1)], route_duration = 0, route_distance = 0,
       legs = Some [Leg (Some (Annotation (Some tags)))] \<rparr>"

text \<open>A route whose geometry has an empty coordinate list.\<close>

definition pathless_route :: "string list \<Rightarrow> raw_route" where
  "pathless_route tags =
     \<lparr> route_geometry = Some [], route_duration = 0, route_distance = 0,
       legs = Some [Leg (Some (Annotation (Some tags)))] \<rparr>"

definition resolving :: "Suggestion list \<Rightarrow> raw_route list \<Rightarrow> services" where
  "resolving fs rs =
     \<lparr> geocode_api = geocode_const fs, directions_api = directions_const rs,
       map_present = True, render_throws = False \<rparr>"

definition answering :: "raw_route list \<Rightarrow> services" where
  "answering rs =
     \<lparr> geocode_api = no_geocode, directions_api = directions_const rs,
       map_present = True, render_throws = False \<rparr>"

definition unreachable :: services where
  "unreachable =
     \<lparr> geocode_api = no_geocode, directions_api = no_directions,
       map_present = True, render_throws = False \<rparr>"

definition located :: traffic_map where
  "located = initial_traffic_map\<lparr>userLocation := Some (0, 0)\<rparr>"

definition route_without :: raw_route where
  "route_without =
     \<lparr> route_geometry = Some [(0, 0), (1, 1)], route_duration = 0, route_distance = 0,
       legs = Some [Leg None] \<rparr>"

definition first_search :: traffic_map where
  "first_search =
     fst (getRoutes (answering [route_with [''low''], route_with [''low''], route_with [''low'']])
            ''Oslo'' (Some (1, 1)) located)"

definition third_chosen :: traffic_map where
  "third_chosen =
     fst (snd (selectRoute
                 (answering [route_with [''low''], route_with [''low''], route_with [''low'']])
                 2 first_search))"

definition second_search :: traffic_map where
  "second_search =
     fst (getRoutes (answering [route_with [''low'']]) ''Rome'' (Some (2, 2)) third_chosen)"

section \<open>Failing fetches\<close>

text \<open>
  The destination coordinates that the \<^verbatim>\<open>try\<close> block of \<^verbatim>\<open>getRoutes\<close> works with: the
  ones passed in, or else the centre of the first place of the geocode answer.
\<close>

definition resolved :: "services \<Rightarrow> string \<Rightarrow> coord option \<Rightarrow> coord option" where
  "resolved sv dest coords =
     (case coords of
        Some destCoords \<Rightarrow> Some destCoords
      | None \<Rightarrow>
          (case geocode_api sv dest 1 of
             None \<Rightarrow> None
           | Some geocodeData \<Rightarrow>
               (case features geocodeData of
                  Some (f # _) \<Rightarrow> Some (center f)
                | _ \<Rightarrow> None)))"

text \<open>
  The answers of the service with which the directions request of \<^verbatim>\<open>getRoutes\<close> fails:
  \<^verbatim>\<open>fetch\<close> or \<^verbatim>\<open>json()\<close> rejects, or a route of the parsed answer has no \<^verbatim>\<open>legs\<close>.
\<close>

definition directions_fails :: "services \<Rightarrow> coord \<Rightarrow> coord \<Rightarrow> bool" where
  "directions_fails sv origin destCoords =
     (case directions_api sv origin destCoords of
        None \<Rightarrow> True
      | Some routeData \<Rightarrow>
          (case routes_field routeData of
             None \<Rightarrow> False
           | Some rs \<Rightarrow> rs \<noteq> [] \<and> processRoutes rs = None))"

text \<open>
  The failures of a route fetch that happen before the new route list is stored: the
  geocode request fails (rejection, or an answer without \<^verbatim>\<open>features\<close>), or it names a
  place and the directions request for it fails.
\<close>

definition request_fails :: "services \<Rightarrow> coord \<Rightarrow> string \<Rightarrow> coord option \<Rightarrow> bool" where
  "request_fails sv origin dest coords =
     (case coords of
        Some destCoords \<Rightarrow> directions_fails sv origin destCoords
      | None \<Rightarrow>
          (case geocode_api sv dest 1 of
             None \<Rightarrow> True
           | Some geocodeData \<Rightarrow>
               (case features geocodeData of
                  None \<Rightarrow> True
                | Some [] \<Rightarrow> False
                | Some (f # _) \<Rightarrow> directions_fails sv origin (center f))))"

text \<open>
  The failures that happen after it is stored: the answer was read and processed, and
  drawing the processed routes throws.
\<close>

definition drawing_fails :: "services \<Rightarrow> coord \<Rightarrow> string \<Rightarrow> coord option \<Rightarrow> bool" where
  "drawing_fails sv origin dest coords =
     (case resolved sv dest coords of
        None \<Rightarrow> False
      | Some destCoords \<Rightarrow>
          (case directions_api sv origin destCoords of
             None \<Rightarrow> False
           | Some routeData \<Rightarrow>
               (case routes_field routeData of
                  None \<Rightarrow> False
                | Some rs \<Rightarrow>
                    rs \<noteq> [] \<and>
                    (case processRoutes rs of
                       None \<Rightarrow> False
                     | Some processedRoutes \<Rightarrow>
                         fst (displayRoutes sv processedRoutes) = Thrown))))"

text \<open>Every failure of a route fetch, of either kind.\<close>

definition fetch_fails :: "services \<Rightarrow> coord \<Rightarrow> string \<Rightarrow> coord option \<Rightarrow> bool" where
  "fetch_fails sv origin dest coords =
     (request_fails sv origin dest coords \<or> drawing_fails sv origin dest coords)"

section \<open>Example inputs of the resolver and the optimizer\<close>

definition library :: Suggestion where
  "library =
     \<lparr> sid = ''poi.1'', place_name = ''Library, Springfield'', center = (3, 4),
       place_type = [''poi''] \<rparr>"

definition library_ave :: Suggestion where
  "library_ave =
     \<lparr> sid = ''address.2'', place_name = ''Library Ave, Shelbyville'', center = (5, 6),
       place_type = [''address''] \<rparr>"

definition open_list :: search_input where
  "open_list =
     \<lparr> query = ''Lib'', suggestions = [library, library_ave], showSuggestions = True,
       selectedIndex = - 1 \<rparr>"

definition first_highlighted :: search_input where
  "first_highlighted = open_list\<lparr>selectedIndex := 0\<rparr>"

definition generous :: search_props where
  "generous =
     \<lparr> mapboxToken = ''pk'',
       autocomplete_api =
         geocode_const [library, library_ave, library, library_ave, library, library_ave] \<rparr>"

definition no_optimization :: "coord list \<Rightarrow> optimization_data option" where
  "no_optimization cs = None"

definition offline_panel :: panel_props where
  "offline_panel =
     \<lparr> panel_token = ''pk'', panel_userLocation = Some (0, 0),
       waypoint_geocode_api = no_geocode, optimization_api = no_optimization,
       onOptimizedRoute_throws = False, now = ''1700000000000'' \<rparr>"

definition one_stop :: optimization_panel where
  "one_stop =
     \<lparr> waypoints = [\<lparr> wid = ''1'', name = ''Library, Springfield'', coordinates = (3, 4) \<rparr>],
       isOptimizing = False, newWaypoint = [] \<rparr>"

definition two_stops :: optimization_panel where
  "two_stops =
     \<lparr> waypoints = [\<lparr> wid = ''1'', name = ''Library, Springfield'', coordinates = (3, 4) \<rparr>,
                    \<lparr> wid = ''2'', name = ''Library Ave, Shelbyville'', coordinates = (5, 6) \<rparr>],
       isOptimizing = False, newWaypoint = [] \<rparr>"

definition reachable :: services where
  "reachable =
     \<lparr> geocode_api = geocode_const [library], directions_api = directions_const [route_with [''low'']],
       map_present = True, render_throws = False \<rparr>"

section \<open>Properties\<close>

text \<open>
  C1.  For every list of per-segment congestion tags the derived severity is heavy if any
  tag is "severe"; else moderate if any tag is "heavy"; else light if any tag is
  "moderate"; else free.  A single "severe" tag yields heavy whatever the other tags are.
\<close>

theorem C1_severity_priority:
  "trafficLevel_of cl =
     (if ''severe'' \<in> set cl then Heavy
      else if ''heavy'' \<in> set cl then Moderate
      else if ''moderate'' \<in> set cl then Light
      else Free)
   \<and> trafficLevel_of (xs @ ''severe'' # ys) = Heavy
   \<and> trafficLevel_of [''moderate''] = Light
   \<and> (legs route = Some ls \<longrightarrow>
        (\<exists>p. processRoute route = Some p \<and> trafficLevel p = trafficLevel_of (congestionLevels ls)))"
  by (simp add: trafficLevel_of_def processRoute_def Let_def)

theorem C1_severity_priority_witness:
  "trafficLevel_of [''low'', ''severe'', ''moderate''] = Heavy
   \<and> trafficLevel_of [''heavy'', ''moderate'', ''low''] = Moderate
   \<and> trafficLevel_of [''low'', ''moderate''] = Light
   \<and> trafficLevel_of [''low'', ''unknown''] = Free
   \<and> (\<exists>p. processRoute \<lparr> route_geometry = Some [(0, 0), (1, 1)], route_duration = 0, route_distance = 0,
             legs = Some [Leg (Some (Annotation (Some [''low'', ''severe''])))] \<rparr> = Some p
          \<and> trafficLevel p = Heavy)"
  using C1_severity_priority
    [of "[''low'', ''severe'', ''moderate'']" "[''low'']" "[''moderate'']"
        "\<lparr> route_geometry = Some [(0, 0), (1, 1)], route_duration = 0, route_distance = 0,
           legs = Some [Leg (Some (Annotation (Some [''low'', ''severe''])))] \<rparr>"
        "[Leg (Some (Annotation (Some [''low'', ''severe''])))]"]
  by (simp add: trafficLevel_of_def congestionLevels_def)

lemma processRoutes_member:
  "processRoutes rs = Some ps \<Longrightarrow> p \<in> set ps \<Longrightarrow> \<exists>r \<in> set rs. processRoute r = Some p"
  by (induction rs arbitrary: ps) (auto split: option.splits)

lemma hasTraffic_of_iff:
  "hasTraffic_of cl \<longleftrightarrow> (\<exists>t \<in> set cl. t = ''moderate'' \<or> t = ''heavy'' \<or> t = ''severe'')"
  by (auto simp: hasTraffic_of_def list_ex_iff)

lemma hasTraffic_of_not_Free:
  "hasTraffic_of cl \<longleftrightarrow> trafficLevel_of cl \<noteq> Free"
  by (auto simp: hasTraffic_of_iff trafficLevel_of_def)

lemma processed_derived:
  assumes "processRoutes rs = Some ps" "p \<in> set ps"
  shows "hasTraffic p = hasTraffic_of (congestion p) \<and> trafficLevel p = trafficLevel_of (congestion p)"
proof -
  from processRoutes_member [OF assms] obtain r where "processRoute r = Some p" by blast
  then show ?thesis
    by (auto simp: processRoute_def Let_def split: option.splits)
qed

lemma processed_hasTraffic_not_Free:
  assumes "processRoutes rs = Some ps" "p \<in> set ps"
  shows "hasTraffic p \<longleftrightarrow> trafficLevel p \<noteq> Free"
  using processed_derived [OF assms] hasTraffic_of_not_Free [of "congestion p"] by simp

lemma processRoutes_nonempty:
  "processRoutes rs = Some ps \<Longrightarrow> rs \<noteq> [] \<Longrightarrow> ps \<noteq> []"
  by (cases rs) (auto split: option.splits)

lemma processRoutes_length:
  "processRoutes rs = Some ps \<Longrightarrow> length ps = length rs"
  by (induction rs arbitrary: ps) (auto split: option.splits)

lemma suggestAlternative_iff:
  assumes "ps \<noteq> []" and inv: "\<forall>p \<in> set ps. hasTraffic p \<longleftrightarrow> trafficLevel p \<noteq> Free"
  shows "suggestAlternative ps \<longleftrightarrow> hasTraffic (ps ! 0) \<and> (\<exists>r \<in> set ps. trafficLevel r = Free)"
proof -
  from assms(1) obtain r0 rest where ps: "ps = r0 # rest" by (cases ps) auto
  have found: "find (\<lambda>route. \<not> hasTraffic route \<or> trafficLevel route = Free) ps \<noteq> None
                 \<longleftrightarrow> (\<exists>r \<in> set ps. trafficLevel r = Free)"
    using inv by (auto simp: find_None_iff)
  have more_than_one: "rest \<noteq> []" if "hasTraffic r0" "r \<in> set ps" "trafficLevel r = Free" for r
    using that inv ps by (cases rest) auto
  show ?thesis
  proof
    assume "suggestAlternative ps"
    with ps found show "hasTraffic (ps ! 0) \<and> (\<exists>r \<in> set ps. trafficLevel r = Free)"
      by simp
  next
    assume r: "hasTraffic (ps ! 0) \<and> (\<exists>r \<in> set ps. trafficLevel r = Free)"
    then have "hasTraffic r0" using ps by simp
    moreover from r this more_than_one have "rest \<noteq> []" by blast
    moreover from r found
    have "find (\<lambda>route. \<not> hasTraffic route \<or> trafficLevel route = Free) (r0 # rest) \<noteq> None"
      using ps by simp
    ultimately show "suggestAlternative ps" using ps by (cases rest) simp_all
  qed
qed

lemma displayRoutes_Thrown:
  "fst (displayRoutes sv rd) = Thrown \<Longrightarrow> displayRoutes sv rd = (Thrown, [])"
  by (auto simp: displayRoutes_def split: if_splits list.splits option.splits)

lemma displayRoutes_Returned:
  "fst (displayRoutes sv rd) \<noteq> Thrown \<Longrightarrow>
     displayRoutes sv rd = (Returned, if map_present sv then [Render rd] else [])"
  by (auto simp: displayRoutes_def split: if_splits list.splits option.splits)

lemma displayRoutes_Returned_iff:
  assumes "rd \<noteq> []"
  shows "fst (displayRoutes sv rd) = Returned
           \<longleftrightarrow> \<not> map_present sv
               \<or> ((\<exists>c cs. geometry (rd ! 0) = Some (c # cs)) \<and> \<not> render_throws sv)"
proof -
  from assms obtain r0 rest where "rd = r0 # rest" by (cases rd) auto
  then show ?thesis
    by (auto simp: displayRoutes_def split: option.splits list.splits)
qed

lemma getRoutes_directions_read:
  assumes "directions_api sv origin c = Some d" "routes_field d = Some rs" "rs \<noteq> []"
    and "processRoutes rs = Some ps"
  shows "getRoutes_directions sv origin c s =
           (if fst (displayRoutes sv ps) = Thrown
            then (Thrown, s\<lparr>routes := ps\<rparr>, [Fetch (Directions origin c)])
            else (Returned, s\<lparr>routes := ps\<rparr>,
                  [Fetch (Directions origin c)] @ (if map_present sv then [Render ps] else [])
                    @ (if suggestAlternative ps then [Notify TrafficDetected] else [])))"
proof -
  from assms(3) obtain r rs' where rs: "rs = r # rs'" by (cases rs) auto
  show ?thesis
  proof (cases "fst (displayRoutes sv ps) = Thrown")
    case True
    from displayRoutes_Thrown [OF this] True assms(1,2,4) show ?thesis
      unfolding rs getRoutes_directions_def Let_def
      by (simp del: processRoutes.simps)
  next
    case False
    from displayRoutes_Returned [OF this] False assms(1,2,4) show ?thesis
      unfolding rs getRoutes_directions_def Let_def
      by (simp del: processRoutes.simps)
  qed
qed

lemma getRoutes_try_resolved:
  assumes "resolved sv dest coords = Some c"
  shows "getRoutes_try sv origin dest coords s =
           (case getRoutes_directions sv origin c s of
              (k, s1, evs) \<Rightarrow>
                (k, s1, (case coords of None \<Rightarrow> [Fetch (Geocode dest 1)] | Some _ \<Rightarrow> []) @ evs))"
  using assms unfolding getRoutes_try_def resolved_def Let_def
  by (auto split: option.splits list.splits prod.splits)

lemma getRoutes_read:
  assumes "userLocation s = Some origin" "dest \<noteq> []" "resolved sv dest coords = Some c"
    and "directions_api sv origin c = Some d" "routes_field d = Some rs" "rs \<noteq> []"
    and "processRoutes rs = Some ps"
  shows "getRoutes sv dest coords s =
           (s\<lparr>isLoading := False, destination := dest, routes := ps\<rparr>,
            (case coords of None \<Rightarrow> [Fetch (Geocode dest 1)] | Some _ \<Rightarrow> [])
              @ [Fetch (Directions origin c)]
              @ (if fst (displayRoutes sv ps) = Thrown then [Notify RouteError]
                 else (if map_present sv then [Render ps] else [])
                        @ (if suggestAlternative ps then [Notify TrafficDetected] else [])))"
  using assms(1,2)
  by (simp add: getRoutes_def getRoutes_try_resolved [OF assms(3)]
                getRoutes_directions_read [OF assms(4-7)])


lemma getRoutes_index:
  "selectedRouteIndex (fst (getRoutes sv dest coords s)) = selectedRouteIndex s"
proof -
  have d: "selectedRouteIndex s1 = selectedRouteIndex s0"
    if "getRoutes_directions sv origin c s0 = (k, s1, evs)" for origin c s0 k s1 evs
    using that unfolding getRoutes_directions_def Let_def
    by (auto split: option.splits list.splits completion.splits prod.splits
             simp del: processRoutes.simps)
  have t: "selectedRouteIndex s1 = selectedRouteIndex s0"
    if "getRoutes_try sv origin dest coords s0 = (k, s1, evs)" for origin s0 k s1 evs
    using that unfolding getRoutes_try_def Let_def
    by (auto split: option.splits list.splits prod.splits dest: d)
  show ?thesis
  proof (cases "userLocation s")
    case None
    then show ?thesis by (simp add: getRoutes_def)
  next
    case (Some origin)
    show ?thesis
    proof (cases "dest = []")
      case True
      with Some show ?thesis by (simp add: getRoutes_def)
    next
      case False
      let ?s0 = "s\<lparr>isLoading := True, destination := dest\<rparr>"
      obtain k s1 evs where run: "getRoutes_try sv origin dest coords ?s0 = (k, s1, evs)"
        by (cases "getRoutes_try sv origin dest coords ?s0") auto
      from t [OF run] have "selectedRouteIndex s1 = selectedRouteIndex s" by simp
      with Some False run show ?thesis
        by (cases k) (simp_all add: getRoutes_def)
    qed
  qed
qed

lemma processRoute_route_with:
  "processRoute (route_with tags)
     = Some \<lparr> geometry = Some [(0, 0), (1, 1)], duration = 0, distance = 0, congestion = tags,
              hasTraffic = hasTraffic_of tags, trafficLevel = trafficLevel_of tags \<rparr>"
  by (simp add: route_with_def processRoute_def congestionLevels_def)

lemma processRoute_pathless_route:
  "processRoute (pathless_route tags)
     = Some \<lparr> geometry = Some [], duration = 0, distance = 0, congestion = tags,
              hasTraffic = hasTraffic_of tags, trafficLevel = trafficLevel_of tags \<rparr>"
  by (simp add: pathless_route_def processRoute_def congestionLevels_def)

text \<open>
  C2.  For every returned route, has-traffic is true exactly when one of the first leg's
  congestion tags is "moderate", "heavy" or "severe"; an absent tag list (no first leg, no
  annotation, no congestion field) is the empty list, and for the empty list has-traffic
  is false and the severity is free.
\<close>

theorem C2_has_traffic:
  "(processRoutes rs = Some ps \<longrightarrow>
      (\<forall>p \<in> set ps.
         (hasTraffic p \<longleftrightarrow>
            (\<exists>t \<in> set (congestion p). t = ''moderate'' \<or> t = ''heavy'' \<or> t = ''severe''))
         \<and> (congestion p = [] \<longrightarrow> \<not> hasTraffic p \<and> trafficLevel p = Free)))
   \<and> (processRoute route = Some p \<longrightarrow>
        (\<exists>ls. legs route = Some ls \<and> congestion p = congestionLevels ls))
   \<and> congestionLevels [] = []
   \<and> congestionLevels (Leg None # others) = []
   \<and> congestionLevels (Leg (Some (Annotation None)) # others) = []
   \<and> congestionLevels (Leg (Some (Annotation (Some tags))) # others) = tags
   \<and> hasTraffic_of [] = False \<and> trafficLevel_of [] = Free"
proof -
  have a: "processRoutes rs = Some ps \<longrightarrow>
      (\<forall>p \<in> set ps.
         (hasTraffic p \<longleftrightarrow>
            (\<exists>t \<in> set (congestion p). t = ''moderate'' \<or> t = ''heavy'' \<or> t = ''severe''))
         \<and> (congestion p = [] \<longrightarrow> \<not> hasTraffic p \<and> trafficLevel p = Free))"
  proof (intro impI ballI)
    fix p assume "processRoutes rs = Some ps" "p \<in> set ps"
    from processed_derived [OF this]
    show "(hasTraffic p \<longleftrightarrow>
            (\<exists>t \<in> set (congestion p). t = ''moderate'' \<or> t = ''heavy'' \<or> t = ''severe''))
         \<and> (congestion p = [] \<longrightarrow> \<not> hasTraffic p \<and> trafficLevel p = Free)"
      by (auto simp: hasTraffic_of_iff trafficLevel_of_def)
  qed
  have b: "processRoute route = Some p \<longrightarrow>
        (\<exists>ls. legs route = Some ls \<and> congestion p = congestionLevels ls)"
    by (auto simp: processRoute_def Let_def split: option.splits)
  have c: "congestionLevels [] = []" "congestionLevels (Leg None # others) = []"
    "congestionLevels (Leg (Some (Annotation None)) # others) = []"
    "congestionLevels (Leg (Some (Annotation (Some tags))) # others) = tags"
    by (simp_all add: congestionLevels_def)
  have d: "hasTraffic_of [] = False" "trafficLevel_of [] = Free"
    by (simp_all add: hasTraffic_of_def trafficLevel_of_def)
  from a b c d show ?thesis by blast
qed

theorem C2_has_traffic_witness:
  "processRoutes [route_with [''moderate''], route_without]
     = Some [\<lparr> geometry = Some [(0, 0), (1, 1)], duration = 0, distance = 0, congestion = [''moderate''],
               hasTraffic = True, trafficLevel = Light \<rparr>,
             \<lparr> geometry = Some [(0, 0), (1, 1)], duration = 0, distance = 0, congestion = [],
               hasTraffic = False, trafficLevel = Free \<rparr>]
   \<and> legs route_without = Some [Leg None]
   \<and> congestionLevels [Leg None] = []"
proof -
  have run: "processRoutes [route_with [''moderate''], route_without]
     = Some [\<lparr> geometry = Some [(0, 0), (1, 1)], duration = 0, distance = 0, congestion = [''moderate''],
               hasTraffic = True, trafficLevel = Light \<rparr>,
             \<lparr> geometry = Some [(0, 0), (1, 1)], duration = 0, distance = 0, congestion = [],
               hasTraffic = False, trafficLevel = Free \<rparr>]"
    by (simp add: route_with_def route_without_def processRoute_def congestionLevels_def
                  hasTraffic_of_def trafficLevel_of_def)
  have one: "processRoute route_without
     = Some \<lparr> geometry = Some [(0, 0), (1, 1)], duration = 0, distance = 0, congestion = [],
              hasTraffic = False, trafficLevel = Free \<rparr>"
    by (simp add: route_without_def processRoute_def congestionLevels_def
                  hasTraffic_of_def trafficLevel_of_def)
  from C2_has_traffic
    [of "[route_with [''moderate''], route_without]"
        "[\<lparr> geometry = Some [(0, 0), (1, 1)], duration = 0, distance = 0, congestion = [''moderate''],
            hasTraffic = True, trafficLevel = Light \<rparr>,
          \<lparr> geometry = Some [(0, 0), (1, 1)], duration = 0, distance = 0, congestion = [],
            hasTraffic = False, trafficLevel = Free \<rparr>]"
        route_without
        "\<lparr> geometry = Some [(0, 0), (1, 1)], duration = 0, distance = 0, congestion = [],
           hasTraffic = False, trafficLevel = Free \<rparr>" "[]"] run one
  show ?thesis by (simp add: route_without_def)
qed

text \<open>
  C3, as stated: for every processed route list the "alternative available" notification
  is emitted exactly when the route at index 0 has traffic and some route of the list is
  rated free.  It fails: the check runs after \<^verbatim>\<open>displayRoutes\<close> inside the same \<^verbatim>\<open>try\<close>,
  so when drawing throws the list is stored, route 0 is congested, a free route exists,
  and the fetch ends in the "unable to get route" notification without the advisory.
\<close>

theorem C3_undrawn_counterexample:
  "processRoutes [pathless_route [''heavy''], route_with [''low'']]
     = Some [\<lparr> geometry = Some [], duration = 0, distance = 0, congestion = [''heavy''],
               hasTraffic = True, trafficLevel = Moderate \<rparr>,
             \<lparr> geometry = Some [(0, 0), (1, 1)], duration = 0, distance = 0,
               congestion = [''low''], hasTraffic = False, trafficLevel = Free \<rparr>]
   \<and> routes (fst (getRoutes (answering [pathless_route [''heavy''], route_with [''low'']])
                     ''Oslo'' (Some (1, 1)) located))
       = [\<lparr> geometry = Some [], duration = 0, distance = 0, congestion = [''heavy''],
            hasTraffic = True, trafficLevel = Moderate \<rparr>,
          \<lparr> geometry = Some [(0, 0), (1, 1)], duration = 0, distance = 0,
            congestion = [''low''], hasTraffic = False, trafficLevel = Free \<rparr>]
   \<and> snd (getRoutes (answering [pathless_route [''heavy''], route_with [''low'']])
             ''Oslo'' (Some (1, 1)) located)
       = [Fetch (Directions (0, 0) (1, 1)), Notify RouteError]
   \<and> Notify TrafficDetected
       \<notin> set (snd (getRoutes (answering [pathless_route [''heavy''], route_with [''low'']])
                     ''Oslo'' (Some (1, 1)) located))"
  by (simp add: processRoute_route_with processRoute_pathless_route hasTraffic_of_def
        trafficLevel_of_def getRoutes_def getRoutes_try_def getRoutes_directions_def
        displayRoutes_def answering_def directions_const_def located_def
        initial_traffic_map_def Let_def)

text \<open>
  C3, amended: for every processed route list stored by a route fetch (with coordinates
  passed in or found by the geocode call), the "alternative available" notification is
  emitted exactly when drawing the routes completed (there is no map, or route 0 has a
  geometry with at least one coordinate and the map library does not throw) and the route
  at index 0 has traffic and some route of the list is rated free (equivalently: has no
  traffic).  When drawing throws, the only notification is "unable to get route".  The
  selected route index is not changed.
\<close>

theorem C3_advisory:
  assumes "userLocation s = Some origin" "dest \<noteq> []" "resolved sv dest coords = Some c"
    and "directions_api sv origin c = Some d" "routes_field d = Some rs" "rs \<noteq> []"
    and "processRoutes rs = Some ps"
  shows "(Notify TrafficDetected \<in> set (snd (getRoutes sv dest coords s))
            \<longleftrightarrow> fst (displayRoutes sv ps) = Returned
                \<and> hasTraffic (ps ! 0) \<and> (\<exists>r \<in> set ps. trafficLevel r = Free))
       \<and> (fst (displayRoutes sv ps) = Returned
            \<longleftrightarrow> \<not> map_present sv
                \<or> ((\<exists>p ps'. geometry (ps ! 0) = Some (p # ps')) \<and> \<not> render_throws sv))
       \<and> (fst (displayRoutes sv ps) \<noteq> Returned \<longrightarrow>
            notifications_of (snd (getRoutes sv dest coords s)) = [RouteError])
       \<and> ((\<exists>r \<in> set ps. trafficLevel r = Free) \<longleftrightarrow> (\<exists>r \<in> set ps. \<not> hasTraffic r))
       \<and> (suggestAlternative ps
            \<longleftrightarrow> hasTraffic (ps ! 0) \<and> (\<exists>r \<in> set ps. trafficLevel r = Free))
       \<and> routes (fst (getRoutes sv dest coords s)) = ps
       \<and> selectedRouteIndex (fst (getRoutes sv dest coords s)) = selectedRouteIndex s"
proof -
  have ne: "ps \<noteq> []" using processRoutes_nonempty assms(6,7) by blast
  have inv: "\<forall>p \<in> set ps. hasTraffic p \<longleftrightarrow> trafficLevel p \<noteq> Free"
    using processed_hasTraffic_not_Free [OF assms(7)] by blast
  note adv = suggestAlternative_iff [OF ne inv]
  note run = getRoutes_read [OF assms]
  have k: "fst (displayRoutes sv ps) = Returned \<longleftrightarrow> fst (displayRoutes sv ps) \<noteq> Thrown"
    by (cases "fst (displayRoutes sv ps)") simp_all
  have 1: "Notify TrafficDetected \<in> set (snd (getRoutes sv dest coords s))
            \<longleftrightarrow> fst (displayRoutes sv ps) = Returned
                \<and> hasTraffic (ps ! 0) \<and> (\<exists>r \<in> set ps. trafficLevel r = Free)"
    unfolding run k using adv by (auto split: option.splits)
  have 2: "fst (displayRoutes sv ps) = Returned
            \<longleftrightarrow> \<not> map_present sv
                \<or> ((\<exists>p ps'. geometry (ps ! 0) = Some (p # ps')) \<and> \<not> render_throws sv)"
    by (rule displayRoutes_Returned_iff [OF ne])
  have 3: "fst (displayRoutes sv ps) \<noteq> Returned \<longrightarrow>
            notifications_of (snd (getRoutes sv dest coords s)) = [RouteError]"
    unfolding run k by (auto split: option.splits)
  have 4: "(\<exists>r \<in> set ps. trafficLevel r = Free) \<longleftrightarrow> (\<exists>r \<in> set ps. \<not> hasTraffic r)"
    using inv by blast
  have 5: "routes (fst (getRoutes sv dest coords s)) = ps"
    unfolding run by simp
  from 1 2 3 4 adv 5 getRoutes_index show ?thesis by blast
qed

theorem C3_advisory_witness:
  "Notify TrafficDetected
     \<in> set (snd (getRoutes (answering [route_with [''heavy'', ''low''], route_with [''low'']])
                   ''Oslo'' (Some (1, 1)) located))
   \<and> Notify TrafficDetected
     \<notin> set (snd (getRoutes (answering [route_with [''severe''], route_with [''severe'', ''low'']])
                   ''Oslo'' (Some (1, 1)) located))
   \<and> Notify TrafficDetected
     \<in> set (snd (getRoutes (resolving [library] [route_with [''heavy''], route_with [''low'']])
                   ''Lib'' None located))
   \<and> notifications_of
       (snd (getRoutes (answering [pathless_route [''heavy''], route_with [''low'']])
               ''Oslo'' (Some (1, 1)) located)) = [RouteError]
   \<and> selectedRouteIndex
       (fst (getRoutes (answering [route_with [''heavy'', ''low''], route_with [''low'']])
               ''Oslo'' (Some (1, 1)) located)) = 0"
proof -
  have a: "userLocation located = Some (0, 0)" "''Oslo'' \<noteq> []" "''Lib'' \<noteq> []"
    by (simp_all add: located_def initial_traffic_map_def)
  have r: "resolved sv ''Oslo'' (Some (1, 1)) = Some (1, 1)"
      "resolved (resolving [library] rs) ''Lib'' None = Some (3, 4)" for sv rs
    by (simp_all add: resolved_def resolving_def geocode_const_def library_def)
  have d: "directions_api (answering rs) (0, 0) (1, 1) = Some \<lparr> routes_field = Some rs \<rparr>"
      "directions_api (resolving fs rs) (0, 0) (3, 4) = Some \<lparr> routes_field = Some rs \<rparr>"
      "routes_field \<lparr> routes_field = Some rs \<rparr> = Some rs" for fs rs
    by (simp_all add: answering_def resolving_def directions_const_def)
  have p: "processRoutes [route_with t1, route_with t2]
      = Some [\<lparr> geometry = Some [(0, 0), (1, 1)], duration = 0, distance = 0, congestion = t1,
                hasTraffic = hasTraffic_of t1, trafficLevel = trafficLevel_of t1 \<rparr>,
              \<lparr> geometry = Some [(0, 0), (1, 1)], duration = 0, distance = 0, congestion = t2,
                hasTraffic = hasTraffic_of t2, trafficLevel = trafficLevel_of t2 \<rparr>]"
      "processRoutes [pathless_route t1, route_with t2]
      = Some [\<lparr> geometry = Some [], duration = 0, distance = 0, congestion = t1,
                hasTraffic = hasTraffic_of t1, trafficLevel = trafficLevel_of t1 \<rparr>,
              \<lparr> geometry = Some [(0, 0), (1, 1)], duration = 0, distance = 0, congestion = t2,
                hasTraffic = hasTraffic_of t2, trafficLevel = trafficLevel_of t2 \<rparr>]" for t1 t2
    by (simp_all add: processRoute_route_with processRoute_pathless_route)
  from C3_advisory [OF a(1,2) r(1) d(1,3) _ p(1) [of "[''heavy'', ''low'']" "[''low'']"]]
       C3_advisory [OF a(1,2) r(1) d(1,3) _ p(1) [of "[''severe'']" "[''severe'', ''low'']"]]
       C3_advisory [OF a(1,3) r(2) [of "[route_with [''heavy''], route_with [''low'']]"]
                       d(2,3) _ p(1) [of "[''heavy'']" "[''low'']"]]
       C3_advisory [OF a(1,2) r(1) d(1,3) _ p(2) [of "[''heavy'']" "[''low'']"]]
  show ?thesis
    by (simp add: located_def initial_traffic_map_def answering_def resolving_def
                  hasTraffic_of_def trafficLevel_of_def)
qed


lemma selectRoute_state:
  "fst (snd (selectRoute sv index s)) = s\<lparr>selectedRouteIndex := index\<rparr>"
  by (simp add: selectRoute_def Let_def split: prod.splits)

text \<open>
  C4, as stated: a successful route fetch that replaces the candidate list resets the
  selected route index to zero, so the index is valid whenever the list is non-empty.
  It fails: \<^verbatim>\<open>getRoutes\<close> never calls \<^verbatim>\<open>setSelectedRouteIndex\<close>.  After a search with
  three routes and a click on the third, a search that returns one route leaves the
  index at 2, beyond the end of the new list.
\<close>

theorem C4_index_not_reset_counterexample:
  "length (routes first_search) = 3
   \<and> selectedRouteIndex third_chosen = 2
   \<and> selectedRouteIndex third_chosen < length (routes third_chosen)
   \<and> routes second_search \<noteq> routes third_chosen
   \<and> length (routes second_search) = 1
   \<and> selectedRouteIndex second_search \<noteq> 0
   \<and> \<not> selectedRouteIndex second_search < length (routes second_search)"
  by (simp add: second_search_def third_chosen_def first_search_def located_def
        initial_traffic_map_def answering_def directions_const_def route_with_def
        getRoutes_def getRoutes_try_def getRoutes_directions_def displayRoutes_def
        selectRoute_def processRoute_def congestionLevels_def hasTraffic_of_def
        trafficLevel_of_def Let_def)

text \<open>
  C4, amended: a successful route fetch replaces the candidate list and leaves the
  selected route index as it was.  The index is zero initially and is set only by
  \<^verbatim>\<open>selectRoute\<close>, to the index it is given; \<^verbatim>\<open>handleOptimizedRoute\<close> does not touch it.
  After a replacement, with coordinates passed in or found by the geocode call, the index
  is valid for the new list exactly when the old value is below the number of routes
  returned, in particular when it was zero.
\<close>

theorem C4_index_kept:
  assumes "userLocation s = Some origin" "dest \<noteq> []"
    and "directions_api sv origin c = Some d" "routes_field d = Some rs" "rs \<noteq> []"
    and "processRoutes rs = Some ps"
  shows "routes (fst (getRoutes sv dest (Some c) s)) = ps
       \<and> selectedRouteIndex (fst (getRoutes sv dest (Some c) s)) = selectedRouteIndex s
       \<and> (selectedRouteIndex (fst (getRoutes sv dest (Some c) s))
             < length (routes (fst (getRoutes sv dest (Some c) s)))
           \<longleftrightarrow> selectedRouteIndex s < length rs)
       \<and> (selectedRouteIndex s = 0 \<longrightarrow>
            selectedRouteIndex (fst (getRoutes sv dest (Some c) s))
              < length (routes (fst (getRoutes sv dest (Some c) s))))
       \<and> selectedRouteIndex (fst (getRoutes sv' dest' coords' s)) = selectedRouteIndex s
       \<and> selectedRouteIndex (fst (snd (selectRoute sv index s))) = index
       \<and> routes (fst (snd (selectRoute sv index s))) = routes s
       \<and> selectedRouteIndex initial_traffic_map = 0
       \<and> (resolved sv dest None = Some c \<longrightarrow>
            routes (fst (getRoutes sv dest None s)) = ps
            \<and> (selectedRouteIndex (fst (getRoutes sv dest None s))
                  < length (routes (fst (getRoutes sv dest None s)))
                \<longleftrightarrow> selectedRouteIndex s < length rs))
       \<and> selectedRouteIndex (fst (snd (handleOptimizedRoute sv path names s)))
           = selectedRouteIndex s"
proof -
  have given: "resolved sv dest (Some c) = Some c" by (simp add: resolved_def)
  have r: "routes (fst (getRoutes sv dest (Some c) s)) = ps"
    unfolding getRoutes_read [OF assms(1,2) given assms(3-6)] by simp
  have len: "length ps = length rs" using assms(6) by (rule processRoutes_length)
  have pos: "0 < length rs" using assms(5) by simp
  have i: "selectedRouteIndex (fst (getRoutes sv dest (Some c) s)) = selectedRouteIndex s"
    by (rule getRoutes_index)
  have j: "selectedRouteIndex (fst (getRoutes sv' dest' coords' s)) = selectedRouteIndex s"
    by (rule getRoutes_index)
  have k: "selectedRouteIndex (fst (snd (selectRoute sv index s))) = index"
      "routes (fst (snd (selectRoute sv index s))) = routes s"
    by (simp_all add: selectRoute_state)
  have z: "selectedRouteIndex initial_traffic_map = 0"
    by (simp add: initial_traffic_map_def)
  have typed: "resolved sv dest None = Some c \<longrightarrow>
            routes (fst (getRoutes sv dest None s)) = ps
            \<and> (selectedRouteIndex (fst (getRoutes sv dest None s))
                  < length (routes (fst (getRoutes sv dest None s)))
                \<longleftrightarrow> selectedRouteIndex s < length rs)"
  proof
    assume res: "resolved sv dest None = Some c"
    have "routes (fst (getRoutes sv dest None s)) = ps"
      unfolding getRoutes_read [OF assms(1,2) res assms(3-6)] by simp
    moreover have "selectedRouteIndex (fst (getRoutes sv dest None s)) = selectedRouteIndex s"
      by (rule getRoutes_index)
    ultimately show "routes (fst (getRoutes sv dest None s)) = ps
            \<and> (selectedRouteIndex (fst (getRoutes sv dest None s))
                  < length (routes (fst (getRoutes sv dest None s)))
                \<longleftrightarrow> selectedRouteIndex s < length rs)"
      using len by simp
  qed
  have opt: "selectedRouteIndex (fst (snd (handleOptimizedRoute sv path names s)))
           = selectedRouteIndex s"
    by (simp add: handleOptimizedRoute_def)
  have kept: "routes (fst (getRoutes sv dest (Some c) s)) = ps
       \<and> selectedRouteIndex (fst (getRoutes sv dest (Some c) s)) = selectedRouteIndex s
       \<and> (selectedRouteIndex (fst (getRoutes sv dest (Some c) s))
             < length (routes (fst (getRoutes sv dest (Some c) s)))
           \<longleftrightarrow> selectedRouteIndex s < length rs)
       \<and> (selectedRouteIndex s = 0 \<longrightarrow>
            selectedRouteIndex (fst (getRoutes sv dest (Some c) s))
              < length (routes (fst (getRoutes sv dest (Some c) s))))"
    unfolding r i using len pos by simp
  from kept j k z typed opt show ?thesis by blast
qed

theorem C4_index_kept_witness:
  "routes second_search
     = [\<lparr> geometry = Some [(0, 0), (1, 1)], duration = 0, distance = 0, congestion = [''low''],
          hasTraffic = False, trafficLevel = Free \<rparr>]
   \<and> selectedRouteIndex second_search = selectedRouteIndex third_chosen
   \<and> selectedRouteIndex third_chosen = 2
   \<and> routes (fst (getRoutes reachable ''Lib'' None third_chosen))
       = [\<lparr> geometry = Some [(0, 0), (1, 1)], duration = 0, distance = 0,
            congestion = [''low''], hasTraffic = False, trafficLevel = Free \<rparr>]
   \<and> selectedRouteIndex (fst (getRoutes reachable ''Lib'' None third_chosen)) = 2"
proof -
  have t: "third_chosen = \<lparr> userLocation = Some (0, 0),
      routes = [\<lparr> geometry = Some [(0, 0), (1, 1)], duration = 0, distance = 0,
                   congestion = [''low''], hasTraffic = False, trafficLevel = Free \<rparr>,
                \<lparr> geometry = Some [(0, 0), (1, 1)], duration = 0, distance = 0,
                   congestion = [''low''], hasTraffic = False, trafficLevel = Free \<rparr>,
                \<lparr> geometry = Some [(0, 0), (1, 1)], duration = 0, distance = 0,
                   congestion = [''low''], hasTraffic = False, trafficLevel = Free \<rparr>],
      selectedRouteIndex = 2, destination = ''Oslo'', isLoading = False,
      showOptimization = False \<rparr>"
    by (simp add: third_chosen_def first_search_def located_def
        initial_traffic_map_def answering_def directions_const_def route_with_def
        getRoutes_def getRoutes_try_def getRoutes_directions_def displayRoutes_def
        selectRoute_def processRoute_def congestionLevels_def hasTraffic_of_def
        trafficLevel_of_def Let_def)
  have a: "userLocation third_chosen = Some (0, 0)" "''Rome'' \<noteq> []" "''Lib'' \<noteq> []"
    by (simp_all add: t)
  have d: "directions_api (answering [route_with [''low'']]) (0, 0) (2, 2)
             = Some \<lparr> routes_field = Some [route_with [''low'']] \<rparr>"
      "directions_api reachable (0, 0) (3, 4)
             = Some \<lparr> routes_field = Some [route_with [''low'']] \<rparr>"
      "routes_field \<lparr> routes_field = Some [route_with [''low'']] \<rparr> = Some [route_with [''low'']]"
      "[route_with [''low'']] \<noteq> []"
    by (simp_all add: answering_def reachable_def directions_const_def)
  have p: "processRoutes [route_with [''low'']]
      = Some [\<lparr> geometry = Some [(0, 0), (1, 1)], duration = 0, distance = 0,
                congestion = [''low''], hasTraffic = False, trafficLevel = Free \<rparr>]"
    by (simp add: processRoute_route_with hasTraffic_of_def trafficLevel_of_def)
  have r: "resolved reachable ''Lib'' None = Some (3, 4)"
    by (simp add: resolved_def reachable_def geocode_const_def library_def)
  from C4_index_kept [OF a(1,2) d(1,3,4) p] C4_index_kept [OF a(1,3) d(2,3,4) p] r
  show ?thesis
    unfolding second_search_def [symmetric] by (simp add: t)
qed


lemma requests_of_append: "requests_of (a @ b) = requests_of a @ requests_of b"
  by (induction a rule: requests_of.induct) auto

lemma notifications_of_append:
  "notifications_of (a @ b) = notifications_of a @ notifications_of b"
  by (induction a rule: notifications_of.induct) auto

lemma notifications_of_fetches: "notifications_of (map Fetch calls @ evs) = notifications_of evs"
  by (induction calls) auto

lemma requests_of_fetches: "requests_of (map Fetch calls @ evs) = calls @ requests_of evs"
  by (induction calls) auto

lemma directions_fails_run:
  assumes "directions_fails sv origin c"
  shows "getRoutes_directions sv origin c s = (Thrown, s, [Fetch (Directions origin c)])"
proof (cases "directions_api sv origin c")
  case None
  then show ?thesis by (simp add: getRoutes_directions_def)
next
  case (Some d)
  with assms obtain rs0 where "routes_field d = Some rs0" "rs0 \<noteq> []" "processRoutes rs0 = None"
    by (auto simp: directions_fails_def split: option.splits)
  then obtain r rs where "routes_field d = Some (r # rs)" "processRoutes (r # rs) = None"
    by (cases rs0) auto
  with Some show ?thesis
    by (simp add: getRoutes_directions_def del: processRoutes.simps)
qed

lemma request_fails_run:
  assumes "request_fails sv origin dest coords"
  shows "\<exists>calls. getRoutes_try sv origin dest coords s = (Thrown, s, map Fetch calls)
           \<and> distinct calls \<and> length calls \<le> 2 \<and> calls \<noteq> []"
proof (cases coords)
  case (Some c)
  with assms have "directions_fails sv origin c" by (simp add: request_fails_def)
  from directions_fails_run [OF this, of s] Some
  have "getRoutes_try sv origin dest coords s = (Thrown, s, map Fetch [Directions origin c])"
    by (simp add: getRoutes_try_def)
  then show ?thesis by (intro exI [of _ "[Directions origin c]"]) simp
next
  case None
  show ?thesis
  proof (cases "geocode_api sv dest 1")
    case n: None
    with None have "getRoutes_try sv origin dest coords s = (Thrown, s, map Fetch [Geocode dest 1])"
      by (simp add: getRoutes_try_def)
    then show ?thesis by (intro exI [of _ "[Geocode dest 1]"]) simp
  next
    case (Some g)
    show ?thesis
    proof (cases "features g")
      case n: None
      with None Some
      have "getRoutes_try sv origin dest coords s = (Thrown, s, map Fetch [Geocode dest 1])"
        by (simp add: getRoutes_try_def)
      then show ?thesis by (intro exI [of _ "[Geocode dest 1]"]) simp
    next
      case fs: (Some fs)
      with assms None Some obtain f rest where f: "fs = f # rest"
        and "directions_fails sv origin (center f)"
        by (cases fs) (auto simp: request_fails_def)
      from directions_fails_run [OF this(2), of s] None Some fs f
      have "getRoutes_try sv origin dest coords s
              = (Thrown, s, map Fetch [Geocode dest 1, Directions origin (center f)])"
        by (simp add: getRoutes_try_def)
      then show ?thesis
        by (intro exI [of _ "[Geocode dest 1, Directions origin (center f)]"]) simp
    qed
  qed
qed

lemma request_fails_getRoutes:
  assumes "userLocation s = Some origin" "dest \<noteq> []" "request_fails sv origin dest coords"
  shows "\<exists>calls. getRoutes sv dest coords s
             = (s\<lparr>destination := dest, isLoading := False\<rparr>,
                map Fetch calls @ [Notify RouteError])
           \<and> distinct calls \<and> length calls \<le> 2 \<and> calls \<noteq> []"
proof -
  let ?s0 = "s\<lparr>isLoading := True, destination := dest\<rparr>"
  from request_fails_run [OF assms(3), of ?s0] obtain calls
    where t: "getRoutes_try sv origin dest coords ?s0 = (Thrown, ?s0, map Fetch calls)"
      and c: "distinct calls" "length calls \<le> 2" "calls \<noteq> []"
    by blast
  have "getRoutes sv dest coords s
      = (s\<lparr>destination := dest, isLoading := False\<rparr>, map Fetch calls @ [Notify RouteError])"
    using assms(1,2) t by (simp add: getRoutes_def)
  with c show ?thesis by blast
qed

lemma drawing_fails_read:
  assumes "drawing_fails sv origin dest coords"
  shows "\<exists>c d rs ps. resolved sv dest coords = Some c \<and> directions_api sv origin c = Some d
           \<and> routes_field d = Some rs \<and> rs \<noteq> [] \<and> processRoutes rs = Some ps
           \<and> fst (displayRoutes sv ps) = Thrown"
  using assms unfolding drawing_fails_def
  by (auto split: option.splits)

lemma drawing_fails_getRoutes:
  assumes "userLocation s = Some origin" "dest \<noteq> []" "drawing_fails sv origin dest coords"
  shows "\<exists>c d rs ps calls.
           resolved sv dest coords = Some c \<and> directions_api sv origin c = Some d
           \<and> routes_field d = Some rs \<and> rs \<noteq> [] \<and> processRoutes rs = Some ps
           \<and> fst (displayRoutes sv ps) = Thrown
           \<and> getRoutes sv dest coords s
               = (s\<lparr>destination := dest, isLoading := False, routes := ps\<rparr>,
                  map Fetch calls @ [Notify RouteError])
           \<and> distinct calls \<and> length calls \<le> 2 \<and> calls \<noteq> []"
proof -
  from drawing_fails_read [OF assms(3)] obtain c d rs ps
    where r: "resolved sv dest coords = Some c" "directions_api sv origin c = Some d"
      "routes_field d = Some rs" "rs \<noteq> []" "processRoutes rs = Some ps"
      and th: "fst (displayRoutes sv ps) = Thrown"
    by blast
  let ?calls = "(case coords of None \<Rightarrow> [Geocode dest 1] | Some _ \<Rightarrow> []) @ [Directions origin c]"
  have "getRoutes sv dest coords s
          = (s\<lparr>destination := dest, isLoading := False, routes := ps\<rparr>,
             map Fetch ?calls @ [Notify RouteError])"
    unfolding getRoutes_read [OF assms(1,2) r] using th by (simp split: option.splits)
  moreover have "distinct ?calls" "length ?calls \<le> 2" "?calls \<noteq> []"
    by (simp_all split: option.splits)
  ultimately show ?thesis using r th by blast
qed

lemma getRoutes_try_Thrown_iff:
  "fst (getRoutes_try sv origin dest coords s) = Thrown
     \<longleftrightarrow> request_fails sv origin dest coords \<or> drawing_fails sv origin dest coords"
  unfolding getRoutes_try_def getRoutes_directions_def request_fails_def drawing_fails_def
    resolved_def directions_fails_def Let_def
  by (auto split: option.splits list.splits prod.splits completion.splits
           simp del: processRoutes.simps)

lemma displayRoutes_quiet:
  "displayRoutes sv rd = (k, drawn) \<Longrightarrow> Notify t \<notin> set drawn"
  by (auto simp: displayRoutes_def split: if_splits list.splits option.splits)

lemma getRoutes_try_quiet:
  "getRoutes_try sv origin dest coords s = (k, s1, evs) \<Longrightarrow> Notify RouteError \<notin> set evs"
  unfolding getRoutes_try_def getRoutes_directions_def Let_def
  by (auto split: option.splits list.splits prod.splits completion.splits if_splits
           simp del: processRoutes.simps dest: displayRoutes_quiet)

lemma RouteError_iff:
  assumes "userLocation s = Some origin" "dest \<noteq> []"
  shows "Notify RouteError \<in> set (snd (getRoutes sv dest coords s))
           \<longleftrightarrow> fetch_fails sv origin dest coords"
proof -
  let ?s0 = "s\<lparr>isLoading := True, destination := dest\<rparr>"
  obtain k s1 evs where run: "getRoutes_try sv origin dest coords ?s0 = (k, s1, evs)"
    by (cases "getRoutes_try sv origin dest coords ?s0") auto
  note quiet = getRoutes_try_quiet [OF run]
  have "fetch_fails sv origin dest coords \<longleftrightarrow> k = Thrown"
    using getRoutes_try_Thrown_iff [of sv origin dest coords ?s0] run
    by (simp add: fetch_fails_def)
  moreover have "Notify RouteError \<in> set (snd (getRoutes sv dest coords s)) \<longleftrightarrow> k = Thrown"
    using assms run quiet by (cases k) (simp_all add: getRoutes_def)
  ultimately show ?thesis by simp
qed

text \<open>
  C7, as stated: on a network or parse failure during a route fetch there is exactly one
  "unable to get route" notification, no retry, and the route list, the selected index
  and all other component state are left unchanged.  The last part fails twice:
  \<^verbatim>\<open>setDestination(destination)\<close> runs before the \<^verbatim>\<open>try\<close>, so the stored destination
  text is overwritten although the fetch fails; and \<^verbatim>\<open>setRoutes\<close> runs before
  \<^verbatim>\<open>displayRoutes\<close>, so an answer whose first route has no coordinates replaces the
  route list and then fails under the same notification.
\<close>

theorem C7_state_changed_counterexample:
  "userLocation located = Some (0, 0)
   \<and> geocode_api unreachable ''Oslo'' 1 = None
   \<and> snd (getRoutes unreachable ''Oslo'' None located)
       = [Fetch (Geocode ''Oslo'' 1), Notify RouteError]
   \<and> destination located = []
   \<and> destination (fst (getRoutes unreachable ''Oslo'' None located)) = ''Oslo''
   \<and> fst (getRoutes unreachable ''Oslo'' None located) \<noteq> located
   \<and> snd (getRoutes (answering [pathless_route [''low'']]) ''Oslo'' (Some (1, 1)) located)
       = [Fetch (Directions (0, 0) (1, 1)), Notify RouteError]
   \<and> routes located = []
   \<and> routes (fst (getRoutes (answering [pathless_route [''low'']]) ''Oslo'' (Some (1, 1)) located))
       = [\<lparr> geometry = Some [], duration = 0, distance = 0, congestion = [''low''],
            hasTraffic = False, trafficLevel = Free \<rparr>]"
proof -
  have run: "getRoutes unreachable ''Oslo'' None located
     = (located\<lparr>destination := ''Oslo''\<rparr>, [Fetch (Geocode ''Oslo'' 1), Notify RouteError])"
    by (simp add: getRoutes_def getRoutes_try_def unreachable_def no_geocode_def located_def
                  initial_traffic_map_def)
  have "destination (located\<lparr>destination := ''Oslo''\<rparr>) \<noteq> destination located"
    by (simp add: located_def initial_traffic_map_def)
  then have changed: "located\<lparr>destination := ''Oslo''\<rparr> \<noteq> located" by metis
  have drawn: "getRoutes (answering [pathless_route [''low'']]) ''Oslo'' (Some (1, 1)) located
     = (located\<lparr>destination := ''Oslo'',
          routes := [\<lparr> geometry = Some [], duration = 0, distance = 0, congestion = [''low''],
                       hasTraffic = False, trafficLevel = Free \<rparr>]\<rparr>,
        [Fetch (Directions (0, 0) (1, 1)), Notify RouteError])"
    by (simp add: processRoute_pathless_route hasTraffic_of_def trafficLevel_of_def
          getRoutes_def getRoutes_try_def getRoutes_directions_def displayRoutes_def
          answering_def directions_const_def located_def initial_traffic_map_def Let_def)
  show ?thesis
    unfolding run drawn using changed
    by (simp add: unreachable_def no_geocode_def located_def initial_traffic_map_def)
qed

text \<open>
  C7, amended: a route fetch produces the "unable to get route" notification exactly when
  a request fails, its answer cannot be read, or drawing the new routes throws.  In each
  of these cases it is the only notification, each request was sent once (no retry), the
  selected index, the user location and the panel flag are unchanged, the stored
  destination text is the requested destination and the loading flag is false.  The route
  list is unchanged when a request or the reading of its answer fails; when drawing throws
  it has been replaced by the newly processed routes.
\<close>

theorem C7_failure:
  assumes "userLocation s = Some origin" "dest \<noteq> []"
  shows "(Notify RouteError \<in> set (snd (getRoutes sv dest coords s))
            \<longleftrightarrow> fetch_fails sv origin dest coords)
       \<and> (fetch_fails sv origin dest coords \<longrightarrow>
            notifications_of (snd (getRoutes sv dest coords s)) = [RouteError]
            \<and> distinct (requests_of (snd (getRoutes sv dest coords s)))
            \<and> length (requests_of (snd (getRoutes sv dest coords s))) \<le> 2
            \<and> requests_of (snd (getRoutes sv dest coords s)) \<noteq> []
            \<and> selectedRouteIndex (fst (getRoutes sv dest coords s)) = selectedRouteIndex s
            \<and> destination (fst (getRoutes sv dest coords s)) = dest
            \<and> isLoading (fst (getRoutes sv dest coords s)) = False
            \<and> userLocation (fst (getRoutes sv dest coords s)) = userLocation s
            \<and> showOptimization (fst (getRoutes sv dest coords s)) = showOptimization s)
       \<and> (request_fails sv origin dest coords \<longrightarrow>
            fst (getRoutes sv dest coords s) = s\<lparr>destination := dest, isLoading := False\<rparr>
            \<and> routes (fst (getRoutes sv dest coords s)) = routes s)
       \<and> (drawing_fails sv origin dest coords \<longrightarrow>
            (\<exists>c d rs ps.
               resolved sv dest coords = Some c \<and> directions_api sv origin c = Some d
               \<and> routes_field d = Some rs \<and> rs \<noteq> [] \<and> processRoutes rs = Some ps
               \<and> fst (displayRoutes sv ps) = Thrown
               \<and> fst (getRoutes sv dest coords s)
                   = s\<lparr>destination := dest, isLoading := False, routes := ps\<rparr>
               \<and> routes (fst (getRoutes sv dest coords s)) = ps))"
proof -
  let ?R = "getRoutes sv dest coords s"
  have common: "notifications_of (snd ?R) = [RouteError]
            \<and> distinct (requests_of (snd ?R)) \<and> length (requests_of (snd ?R)) \<le> 2
            \<and> requests_of (snd ?R) \<noteq> []
            \<and> selectedRouteIndex (fst ?R) = selectedRouteIndex s
            \<and> destination (fst ?R) = dest \<and> isLoading (fst ?R) = False
            \<and> userLocation (fst ?R) = userLocation s
            \<and> showOptimization (fst ?R) = showOptimization s"
    if "?R = (s1, map Fetch calls @ [Notify RouteError])"
      and "s1 = s\<lparr>destination := dest, isLoading := False\<rparr>
             \<or> (\<exists>ps. s1 = s\<lparr>destination := dest, isLoading := False, routes := ps\<rparr>)"
      and "distinct calls" "length calls \<le> 2" "calls \<noteq> []" for s1 calls
    unfolding that(1) using that(2-5)
    by (auto simp: notifications_of_fetches requests_of_fetches)
  have 1: "Notify RouteError \<in> set (snd ?R) \<longleftrightarrow> fetch_fails sv origin dest coords"
    by (rule RouteError_iff [OF assms])
  have 3: "fst ?R = s\<lparr>destination := dest, isLoading := False\<rparr> \<and> routes (fst ?R) = routes s"
    if "request_fails sv origin dest coords"
    using request_fails_getRoutes [OF assms that] by auto
  have 4: "\<exists>c d rs ps.
               resolved sv dest coords = Some c \<and> directions_api sv origin c = Some d
               \<and> routes_field d = Some rs \<and> rs \<noteq> [] \<and> processRoutes rs = Some ps
               \<and> fst (displayRoutes sv ps) = Thrown
               \<and> fst ?R = s\<lparr>destination := dest, isLoading := False, routes := ps\<rparr>
               \<and> routes (fst ?R) = ps"
    if "drawing_fails sv origin dest coords"
  proof -
    from drawing_fails_getRoutes [OF assms that] obtain c d rs ps calls
      where "resolved sv dest coords = Some c" "directions_api sv origin c = Some d"
        "routes_field d = Some rs" "rs \<noteq> []" "processRoutes rs = Some ps"
        "fst (displayRoutes sv ps) = Thrown"
        and run: "?R = (s\<lparr>destination := dest, isLoading := False, routes := ps\<rparr>,
                        map Fetch calls @ [Notify RouteError])"
      by blast
    moreover from run
    have "fst ?R = s\<lparr>destination := dest, isLoading := False, routes := ps\<rparr>"
      "routes (fst ?R) = ps"
      by simp_all
    ultimately show ?thesis by blast
  qed
  have 2: "notifications_of (snd ?R) = [RouteError]
            \<and> distinct (requests_of (snd ?R)) \<and> length (requests_of (snd ?R)) \<le> 2
            \<and> requests_of (snd ?R) \<noteq> []
            \<and> selectedRouteIndex (fst ?R) = selectedRouteIndex s
            \<and> destination (fst ?R) = dest \<and> isLoading (fst ?R) = False
            \<and> userLocation (fst ?R) = userLocation s
            \<and> showOptimization (fst ?R) = showOptimization s"
    if f: "fetch_fails sv origin dest coords"
  proof (cases "request_fails sv origin dest coords")
    case True
    from request_fails_getRoutes [OF assms True] obtain calls
      where "?R = (s\<lparr>destination := dest, isLoading := False\<rparr>,
                   map Fetch calls @ [Notify RouteError])"
        "distinct calls" "length calls \<le> 2" "calls \<noteq> []"
      by blast
    then show ?thesis by (intro common) auto
  next
    case False
    with f have "drawing_fails sv origin dest coords" by (simp add: fetch_fails_def)
    from drawing_fails_getRoutes [OF assms this] obtain ps calls
      where "?R = (s\<lparr>destination := dest, isLoading := False, routes := ps\<rparr>,
                   map Fetch calls @ [Notify RouteError])"
        "distinct calls" "length calls \<le> 2" "calls \<noteq> []"
      by blast
    then show ?thesis by (intro common) auto
  qed
  from 1 2 3 4 show ?thesis by blast
qed

theorem C7_failure_witness:
  "fetch_fails unreachable (0, 0) ''Oslo'' (Some (1, 1))
   \<and> request_fails unreachable (0, 0) ''Oslo'' (Some (1, 1))
   \<and> fst (getRoutes unreachable ''Oslo'' (Some (1, 1)) located)
       = located\<lparr>destination := ''Oslo'', isLoading := False\<rparr>
   \<and> notifications_of (snd (getRoutes unreachable ''Oslo'' (Some (1, 1)) located)) = [RouteError]
   \<and> routes (fst (getRoutes unreachable ''Oslo'' (Some (1, 1)) located)) = []
   \<and> drawing_fails (answering [pathless_route [''low'']]) (0, 0) ''Oslo'' (Some (1, 1))
   \<and> notifications_of
       (snd (getRoutes (answering [pathless_route [''low'']]) ''Oslo'' (Some (1, 1)) located))
       = [RouteError]
   \<and> routes (fst (getRoutes (answering [pathless_route [''low'']]) ''Oslo'' (Some (1, 1)) located))
       = [\<lparr> geometry = Some [], duration = 0, distance = 0, congestion = [''low''],
            hasTraffic = False, trafficLevel = Free \<rparr>]
   \<and> \<not> fetch_fails (answering [route_with [''low'']]) (0, 0) ''Oslo'' (Some (1, 1))
   \<and> Notify RouteError
       \<notin> set (snd (getRoutes (answering [route_with [''low'']]) ''Oslo'' (Some (1, 1)) located))"
proof -
  have a: "userLocation located = Some (0, 0)" "''Oslo'' \<noteq> []"
    by (simp_all add: located_def initial_traffic_map_def)
  have f: "request_fails unreachable (0, 0) ''Oslo'' (Some (1, 1))"
    by (simp add: request_fails_def directions_fails_def unreachable_def no_directions_def)
  have g: "drawing_fails (answering [pathless_route [''low'']]) (0, 0) ''Oslo'' (Some (1, 1))"
    by (simp add: drawing_fails_def resolved_def answering_def directions_const_def
          processRoute_pathless_route displayRoutes_def)
  have h: "\<not> fetch_fails (answering [route_with [''low'']]) (0, 0) ''Oslo'' (Some (1, 1))"
    by (simp add: fetch_fails_def request_fails_def directions_fails_def drawing_fails_def
          resolved_def answering_def directions_const_def processRoute_route_with
          displayRoutes_def)
  have p: "processRoutes [pathless_route [''low'']]
      = Some [\<lparr> geometry = Some [], duration = 0, distance = 0, congestion = [''low''],
                hasTraffic = False, trafficLevel = Free \<rparr>]"
    by (simp add: processRoute_pathless_route hasTraffic_of_def trafficLevel_of_def)
  have d: "resolved (answering [pathless_route [''low'']]) ''Oslo'' (Some (1, 1)) = Some (1, 1)"
      "directions_api (answering [pathless_route [''low'']]) (0, 0) (1, 1)
         = Some \<lparr> routes_field = Some [pathless_route [''low'']] \<rparr>"
    by (simp_all add: resolved_def answering_def directions_const_def)
  from C7_failure [OF a, of unreachable "Some (1, 1)"]
       C7_failure [OF a, of "answering [pathless_route [''low'']]" "Some (1, 1)"]
       C7_failure [OF a, of "answering [route_with [''low'']]" "Some (1, 1)"]
       f g h p d
  show ?thesis
    by (auto simp: fetch_fails_def located_def initial_traffic_map_def)
qed

lemma getRoutes_directions_requests:
  "getRoutes_directions sv origin c s = (k, s1, evs) \<Longrightarrow> requests_of evs = [Directions origin c]"
  unfolding getRoutes_directions_def Let_def displayRoutes_def
  by (auto split: option.splits list.splits if_splits completion.splits prod.splits
           simp del: processRoutes.simps)

lemma getRoutes_try_requests:
  assumes "getRoutes_try sv origin dest coords s = (k, s1, evs)"
  shows "case coords of
           Some c \<Rightarrow> requests_of evs = [Directions origin c]
         | None \<Rightarrow> requests_of evs = [Geocode dest 1]
                    \<or> (\<exists>c. requests_of evs = [Geocode dest 1, Directions origin c])"
proof (cases coords)
  case (Some c)
  with assms show ?thesis
    by (simp add: getRoutes_try_def getRoutes_directions_requests)
next
  case None
  with assms show ?thesis
    unfolding getRoutes_try_def Let_def
    by (auto split: option.splits list.splits prod.splits
             dest: getRoutes_directions_requests)
qed

lemma getRoutes_requests:
  "case coords of
     Some c \<Rightarrow> filter is_geocode (requests_of (snd (getRoutes sv dest coords s))) = []
   | None \<Rightarrow> requests_of (snd (getRoutes sv dest coords s)) = []
              \<or> requests_of (snd (getRoutes sv dest coords s)) = [Geocode dest 1]
              \<or> (\<exists>c. requests_of (snd (getRoutes sv dest coords s))
                        = [Geocode dest 1, Directions (the (userLocation s)) c])"
proof (cases "userLocation s")
  case None
  then show ?thesis by (simp add: getRoutes_def split: option.splits)
next
  case (Some origin)
  show ?thesis
  proof (cases "dest = []")
    case True
    with Some show ?thesis by (simp add: getRoutes_def split: option.splits)
  next
    case False
    let ?s0 = "s\<lparr>isLoading := True, destination := dest\<rparr>"
    obtain k s1 evs where t: "getRoutes_try sv origin dest coords ?s0 = (k, s1, evs)"
      by (cases "getRoutes_try sv origin dest coords ?s0") auto
    have run: "requests_of (snd (getRoutes sv dest coords s)) = requests_of evs"
      using Some False t by (cases k) (simp_all add: getRoutes_def requests_of_append)
    from getRoutes_try_requests [OF t] Some show ?thesis
      unfolding run by (auto split: option.splits)
  qed
qed

lemma getRoutes_geocodes_first:
  assumes "userLocation s = Some origin" "dest \<noteq> []"
  shows "\<exists>later. requests_of (snd (getRoutes sv dest None s)) = Geocode dest 1 # later
           \<and> filter is_geocode later = []"
proof -
  let ?s0 = "s\<lparr>isLoading := True, destination := dest\<rparr>"
  obtain k s1 evs where t: "getRoutes_try sv origin dest None ?s0 = (k, s1, evs)"
    by (cases "getRoutes_try sv origin dest None ?s0") auto
  have run: "requests_of (snd (getRoutes sv dest None s)) = requests_of evs"
    using assms t by (cases k) (simp_all add: getRoutes_def requests_of_append)
  from getRoutes_try_requests [OF t] show ?thesis
    unfolding run by auto
qed

lemma trim_example: "trim ''  Lib '' = ''Lib''"
  by (simp add: trim_def js_whitespace_def)

text \<open>
  C5.  Selecting a suggestion, with the pointer or with Enter on the highlighted entry,
  sets the query text to the suggestion's full place name and hands the name and the
  coordinates to the route fetcher, which then sends no geocode request.  Submitting
  text with no suggestion selected hands over the trimmed text without coordinates; the
  route fetcher, when it has an origin, then sends exactly one geocode request, and sends
  it before any directions request.  The geocode requests counted are those of the route
  fetcher (\<^term>\<open>Geocode\<close>); the autocomplete lookup of the resolver is the separate
  request \<^term>\<open>Autocomplete\<close>.
\<close>

theorem C5_selection_skips_geocode:
  "query (fst (selectSuggestion sg s)) = place_name sg
   \<and> snd (selectSuggestion sg s) = [Deliver (place_name sg) (Some (center sg))]
   \<and> (index < length (suggestions s) \<longrightarrow>
        handleClick index s = selectSuggestion (suggestions s ! index) s)
   \<and> (showSuggestions s \<and> 0 \<le> selectedIndex s
        \<and> selectedIndex s < int (length (suggestions s)) \<longrightarrow>
        handleKeyDown Enter s
          = (Returned, selectSuggestion (suggestions s ! nat (selectedIndex s)) s))
   \<and> filter is_geocode (requests_of (snd (getRoutes sv (place_name sg) (Some (center sg)) tm))) = []
   \<and> (trim (query s) \<noteq> [] \<longrightarrow>
        handleSearch s = (s\<lparr>showSuggestions := False\<rparr>, [Deliver (trim (query s)) None]))
   \<and> (selectedIndex s < 0 \<or> \<not> showSuggestions s \<or> suggestions s = [] \<longrightarrow>
        handleKeyDown Enter s = (Returned, handleSearch s))
   \<and> (trim (query s) \<noteq> [] \<and> userLocation tm \<noteq> None \<longrightarrow>
        (\<exists>later. requests_of (snd (getRoutes sv (trim (query s)) None tm))
                    = Geocode (trim (query s)) 1 # later
            \<and> filter is_geocode later = []))
   \<and> (requests_of (snd (getRoutes sv (trim (query s)) None tm)) = []
        \<or> (\<exists>later. requests_of (snd (getRoutes sv (trim (query s)) None tm))
                    = Geocode (trim (query s)) 1 # later
            \<and> filter is_geocode later = []))"
proof -
  have 1: "query (fst (selectSuggestion sg s)) = place_name sg"
      "snd (selectSuggestion sg s) = [Deliver (place_name sg) (Some (center sg))]"
    by (simp_all add: selectSuggestion_def)
  have 2: "index < length (suggestions s) \<longrightarrow>
        handleClick index s = selectSuggestion (suggestions s ! index) s"
    by (simp add: handleClick_def)
  have 3: "showSuggestions s \<and> 0 \<le> selectedIndex s
        \<and> selectedIndex s < int (length (suggestions s)) \<longrightarrow>
        handleKeyDown Enter s
          = (Returned, selectSuggestion (suggestions s ! nat (selectedIndex s)) s)"
    by (auto simp: handleKeyDown_def split: prod.splits)
  have 4: "filter is_geocode
             (requests_of (snd (getRoutes sv (place_name sg) (Some (center sg)) tm))) = []"
    using getRoutes_requests [where coords = "Some (center sg)" and sv = sv and dest = "place_name sg" and s = tm] by simp
  have 5: "trim (query s) \<noteq> [] \<longrightarrow>
        handleSearch s = (s\<lparr>showSuggestions := False\<rparr>, [Deliver (trim (query s)) None])"
    by (simp add: handleSearch_def)
  have 6: "selectedIndex s < 0 \<or> \<not> showSuggestions s \<or> suggestions s = [] \<longrightarrow>
        handleKeyDown Enter s = (Returned, handleSearch s)"
    by (auto simp: handleKeyDown_def split: prod.splits)
  have 7: "trim (query s) \<noteq> [] \<and> userLocation tm \<noteq> None \<longrightarrow>
        (\<exists>later. requests_of (snd (getRoutes sv (trim (query s)) None tm))
                    = Geocode (trim (query s)) 1 # later
            \<and> filter is_geocode later = [])"
    using getRoutes_geocodes_first [where s = tm and dest = "trim (query s)" and sv = sv] by auto
  have 8: "requests_of (snd (getRoutes sv (trim (query s)) None tm)) = []
        \<or> (\<exists>later. requests_of (snd (getRoutes sv (trim (query s)) None tm))
                    = Geocode (trim (query s)) 1 # later
            \<and> filter is_geocode later = [])"
    using getRoutes_requests [where coords = None and sv = sv and dest = "trim (query s)" and s = tm] by auto
  from 1 2 3 4 5 6 7 8 show ?thesis by blast
qed


theorem C5_selection_skips_geocode_witness:
  "handleKeyDown ArrowDown open_list = (Returned, first_highlighted, [])
   \<and> handleKeyDown Enter first_highlighted
       = (Returned,
          \<lparr> query = ''Library, Springfield'', suggestions = [], showSuggestions = False,
            selectedIndex = - 1 \<rparr>,
          [Deliver ''Library, Springfield'' (Some (3, 4))])
   \<and> requests_of (snd (getRoutes reachable ''Library, Springfield'' (Some (3, 4)) located))
       = [Directions (0, 0) (3, 4)]
   \<and> handleKeyDown Enter open_list
       = (Returned, open_list\<lparr>showSuggestions := False\<rparr>, [Deliver ''Lib'' None])
   \<and> requests_of (snd (getRoutes reachable ''Lib'' None located))
       = [Geocode ''Lib'' 1, Directions (0, 0) (3, 4)]"
proof -
  have tr: "trim ''Lib'' = ''Lib''"
    by (simp add: trim_def js_whitespace_def)
  have down: "handleKeyDown ArrowDown open_list = (Returned, first_highlighted, [])"
    by (simp add: handleKeyDown_def open_list_def first_highlighted_def)
  have r1: "requests_of (snd (getRoutes reachable ''Library, Springfield'' (Some (3, 4)) located))
       = [Directions (0, 0) (3, 4)]"
    by (simp add: getRoutes_def getRoutes_try_def getRoutes_directions_def displayRoutes_def
          reachable_def directions_const_def geocode_const_def located_def
          initial_traffic_map_def route_with_def processRoute_def congestionLevels_def
          hasTraffic_of_def trafficLevel_of_def Let_def)
  have r2: "requests_of (snd (getRoutes reachable ''Lib'' None located))
       = [Geocode ''Lib'' 1, Directions (0, 0) (3, 4)]"
    by (simp add: getRoutes_def getRoutes_try_def getRoutes_directions_def displayRoutes_def
          reachable_def directions_const_def geocode_const_def located_def library_def
          initial_traffic_map_def route_with_def processRoute_def congestionLevels_def
          hasTraffic_of_def trafficLevel_of_def Let_def)
  from C5_selection_skips_geocode [of library first_highlighted 0 reachable located]
       C5_selection_skips_geocode [of library open_list 0 reachable located]
       tr down r1 r2
  show ?thesis
    by (simp add: open_list_def first_highlighted_def library_def selectSuggestion_def
                  handleSearch_def)
qed

text \<open>
  C8, as stated: the cursor over a non-empty suggestion list is clamped at both ends, so
  ArrowUp at the first index leaves it at the first index.  It fails: ArrowUp at index 0
  moves the cursor to -1, where no suggestion is highlighted.
\<close>

theorem C8_arrow_up_counterexample:
  "showSuggestions first_highlighted
   \<and> suggestions first_highlighted \<noteq> []
   \<and> selectedIndex first_highlighted = 0
   \<and> selectedIndex (fst (snd (handleKeyDown ArrowUp first_highlighted))) = - 1
   \<and> selectedIndex (fst (snd (handleKeyDown ArrowUp first_highlighted)))
       \<noteq> selectedIndex first_highlighted"
  by (simp add: handleKeyDown_def first_highlighted_def open_list_def)

text \<open>
  C8, amended: over a shown, non-empty suggestion list the cursor ranges over the indices
  of the list and -1 (nothing highlighted) and never wraps.  ArrowDown at the last index
  leaves it there; ArrowUp at index 0 moves it to -1 and at -1 leaves it there; either key
  moves it by at most one, and by exactly one where it is not at that end.  Escape hides the list, sets the cursor to -1 and leaves the
  typed query text unchanged.
\<close>

theorem C8_bounded_cursor:
  assumes "showSuggestions s" "suggestions s \<noteq> []"
  shows "(selectedIndex s = int (length (suggestions s)) - 1 \<longrightarrow>
            selectedIndex (fst (snd (handleKeyDown ArrowDown s))) = selectedIndex s)
       \<and> (selectedIndex s = 0 \<longrightarrow> selectedIndex (fst (snd (handleKeyDown ArrowUp s))) = - 1)
       \<and> (selectedIndex s = - 1 \<longrightarrow> selectedIndex (fst (snd (handleKeyDown ArrowUp s))) = - 1)
       \<and> (selectedIndex s < int (length (suggestions s)) - 1 \<longrightarrow>
            selectedIndex (fst (snd (handleKeyDown ArrowDown s))) = selectedIndex s + 1)
       \<and> (selectedIndex s > 0 \<longrightarrow>
            selectedIndex (fst (snd (handleKeyDown ArrowUp s))) = selectedIndex s - 1)
       \<and> (- 1 \<le> selectedIndex s \<and> selectedIndex s < int (length (suggestions s)) \<longrightarrow>
            - 1 \<le> selectedIndex (fst (snd (handleKeyDown ArrowDown s)))
            \<and> selectedIndex (fst (snd (handleKeyDown ArrowDown s))) < int (length (suggestions s))
            \<and> selectedIndex s \<le> selectedIndex (fst (snd (handleKeyDown ArrowDown s)))
            \<and> selectedIndex (fst (snd (handleKeyDown ArrowDown s))) \<le> selectedIndex s + 1
            \<and> - 1 \<le> selectedIndex (fst (snd (handleKeyDown ArrowUp s)))
            \<and> selectedIndex (fst (snd (handleKeyDown ArrowUp s))) < int (length (suggestions s))
            \<and> selectedIndex (fst (snd (handleKeyDown ArrowUp s))) \<le> selectedIndex s
            \<and> selectedIndex s - 1 \<le> selectedIndex (fst (snd (handleKeyDown ArrowUp s))))
       \<and> handleKeyDown Escape s
            = (Returned, s\<lparr>showSuggestions := False, selectedIndex := - 1\<rparr>, [])
       \<and> showSuggestions (fst (snd (handleKeyDown Escape s))) = False
       \<and> query (fst (snd (handleKeyDown Escape s))) = query s
       \<and> query (fst (snd (handleKeyDown ArrowDown s))) = query s
       \<and> query (fst (snd (handleKeyDown ArrowUp s))) = query s"
  using assms by (simp add: handleKeyDown_def)

theorem C8_bounded_cursor_witness:
  "selectedIndex (fst (snd (handleKeyDown ArrowDown (open_list\<lparr>selectedIndex := 1\<rparr>)))) = 1
   \<and> selectedIndex (fst (snd (handleKeyDown ArrowDown open_list))) = 0
   \<and> selectedIndex (fst (snd (handleKeyDown ArrowUp (open_list\<lparr>selectedIndex := 1\<rparr>)))) = 0
   \<and> selectedIndex (fst (snd (handleKeyDown ArrowUp first_highlighted))) = - 1
   \<and> selectedIndex (fst (snd (handleKeyDown ArrowUp open_list))) = - 1
   \<and> handleKeyDown Escape first_highlighted
       = (Returned, \<lparr> query = ''Lib'', suggestions = [library, library_ave],
                      showSuggestions = False, selectedIndex = - 1 \<rparr>, [])"
proof -
  have a: "showSuggestions (open_list\<lparr>selectedIndex := i\<rparr>)"
      "suggestions (open_list\<lparr>selectedIndex := i\<rparr>) \<noteq> []" for i
    by (simp_all add: open_list_def)
  from C8_bounded_cursor [OF a, of 1] C8_bounded_cursor [OF a, of 0]
       C8_bounded_cursor [OF a, of "- 1"]
  show ?thesis
    by (simp add: open_list_def first_highlighted_def)
qed

text \<open>
  C9, as stated: after a completed autocomplete lookup the stored suggestion list holds at
  most the first five entries returned, for every possible answer of the service.  It
  fails: \<^verbatim>\<open>setSuggestions(data.features)\<close> stores the list as returned, so an answer
  with six entries leaves six suggestions.
\<close>

theorem C9_uncapped_counterexample:
  "length (the (features (the (autocomplete_api generous ''Lib'' 5)))) = 6
   \<and> snd (searchSuggestions generous ''Lib'' initial_search_input)
       = [Fetch (Autocomplete ''Lib'' 5)]
   \<and> length (suggestions (fst (searchSuggestions generous ''Lib'' initial_search_input))) = 6
   \<and> \<not> length (suggestions (fst (searchSuggestions generous ''Lib'' initial_search_input))) \<le> 5"
  by (simp add: searchSuggestions_def generous_def geocode_const_def trim_def
                js_whitespace_def initial_search_input_def)

text \<open>
  C9, amended: the autocomplete request asks the service for at most five entries
  (\<^verbatim>\<open>limit=5\<close>), and after a completed lookup whose answer has a \<^verbatim>\<open>features\<close> list the
  stored suggestion list is exactly that list; it has at most five entries whenever the
  service returned at most five.
\<close>

theorem C9_list_as_returned:
  assumes "mapboxToken pr \<noteq> []" "trim q \<noteq> []"
    and "autocomplete_api pr q 5 = Some data" "features data = Some fs"
  shows "suggestions (fst (searchSuggestions pr q s)) = fs
       \<and> snd (searchSuggestions pr q s) = [Fetch (Autocomplete q 5)]
       \<and> (length fs \<le> 5 \<longrightarrow> length (suggestions (fst (searchSuggestions pr q s))) \<le> 5)"
  using assms by (simp add: searchSuggestions_def)

theorem C9_list_as_returned_witness:
  "suggestions (fst (searchSuggestions
       \<lparr> mapboxToken = ''pk'', autocomplete_api = geocode_const [library, library_ave] \<rparr>
       ''Lib'' initial_search_input)) = [library, library_ave]
   \<and> length (suggestions (fst (searchSuggestions
       \<lparr> mapboxToken = ''pk'', autocomplete_api = geocode_const [library, library_ave] \<rparr>
       ''Lib'' initial_search_input))) \<le> 5"
proof -
  let ?pr = "\<lparr> mapboxToken = ''pk'', autocomplete_api = geocode_const [library, library_ave] \<rparr>"
  have a: "mapboxToken ?pr \<noteq> []" "trim ''Lib'' \<noteq> []"
      "autocomplete_api ?pr ''Lib'' 5 = Some \<lparr> features = Some [library, library_ave] \<rparr>"
      "features \<lparr> features = Some [library, library_ave] \<rparr> = Some [library, library_ave]"
    by (simp_all add: geocode_const_def trim_def js_whitespace_def)
  from C9_list_as_returned [OF a, of initial_search_input] show ?thesis by simp
qed

text \<open>
  C10.  For every query of length two or less, also one that is neither empty nor blank,
  the debounce callback sends no autocomplete request, clears the suggestion list and
  hides the dropdown.
\<close>

theorem C10_short_query_no_lookup:
  assumes "length q \<le> 2"
  shows "debounced_search pr q s = (s\<lparr>suggestions := [], showSuggestions := False\<rparr>, [])
       \<and> requests_of (snd (debounced_search pr q s)) = []
       \<and> suggestions (fst (debounced_search pr q s)) = []
       \<and> showSuggestions (fst (debounced_search pr q s)) = False"
  using assms by (simp add: debounced_search_def)

theorem C10_short_query_no_lookup_witness:
  "length ''ab'' \<le> 2
   \<and> mapboxToken generous \<noteq> [] \<and> trim ''ab'' \<noteq> []
   \<and> debounced_search generous ''ab'' open_list
       = (\<lparr> query = ''Lib'', suggestions = [], showSuggestions = False, selectedIndex = - 1 \<rparr>, [])
   \<and> requests_of (snd (debounced_search generous ''abc'' open_list)) = [Autocomplete ''abc'' 5]"
proof -
  have a: "length ''ab'' \<le> 2" by simp
  have b: "requests_of (snd (debounced_search generous ''abc'' open_list)) = [Autocomplete ''abc'' 5]"
    by (simp add: debounced_search_def searchSuggestions_def generous_def geocode_const_def
                  trim_def js_whitespace_def)
  have c: "mapboxToken generous \<noteq> []" "trim ''ab'' \<noteq> []"
    by (simp_all add: generous_def trim_def js_whitespace_def)
  from C10_short_query_no_lookup [OF a, of generous open_list] a b c show ?thesis
    by (simp add: open_list_def)
qed

text \<open>
  C6.  Running the optimization with fewer than two waypoints, or with no origin
  coordinate, sends no request, reports the validation notification, and leaves the
  waypoint list (and the rest of the panel state) unchanged.
\<close>

theorem C6_optimize_guard:
  assumes "panel_userLocation pr = None \<or> length (waypoints s) < 2"
  shows "optimizeRoute pr s = (s, [Notify NeedMoreWaypoints])
       \<and> requests_of (snd (optimizeRoute pr s)) = []
       \<and> notifications_of (snd (optimizeRoute pr s)) = [NeedMoreWaypoints]
       \<and> waypoints (fst (optimizeRoute pr s)) = waypoints s"
  using assms by (auto simp: optimizeRoute_def split: option.splits)

theorem C6_optimize_guard_witness:
  "optimizeRoute offline_panel one_stop = (one_stop, [Notify NeedMoreWaypoints])
   \<and> optimizeRoute (offline_panel\<lparr>panel_userLocation := None\<rparr>) two_stops
       = (two_stops, [Notify NeedMoreWaypoints])
   \<and> requests_of (snd (optimizeRoute offline_panel two_stops))
       = [OptimizedTrips [(0, 0), (3, 4), (5, 6)]]"
proof -
  have a: "panel_userLocation offline_panel = None \<or> length (waypoints one_stop) < 2"
    by (simp add: one_stop_def)
  have b: "panel_userLocation (offline_panel\<lparr>panel_userLocation := None\<rparr>) = None
             \<or> length (waypoints two_stops) < 2"
    by simp
  have c: "requests_of (snd (optimizeRoute offline_panel two_stops))
       = [OptimizedTrips [(0, 0), (3, 4), (5, 6)]]"
    by (simp add: optimizeRoute_def optimizeRoute_try_def offline_panel_def two_stops_def
                  no_optimization_def)
  from C6_optimize_guard [OF a] C6_optimize_guard [OF b] c show ?thesis by simp
qed

end
